theory Spec2Isabelle
  imports Main "HOL-Library.AList"
begin

section \<open>Loading, migrating and saving Assembly objects (ipyrad/load/load.py)\<close>

subsection \<open>Python values, errors and printed lines\<close>

text \<open>
  The values the module stores in its mappings and reads from a JSON document. A Python
  \<open>dict\<close> or \<open>OrderedDict\<close> is an association list in insertion order; its keys are
  unique in Python, and every operation below reads a key's first entry, as \<open>map_of\<close>
  does. No operation of the module inspects a number, so numbers are integers.
\<close>

datatype pyval =
    PNone
  | PBool bool
  | PNum int
  | PStr string
  | PList "pyval list"
  | PDict "(string \<times> pyval) list"

type_synonym pydict = "(string \<times> pyval) list"

text \<open>
  The exceptions the module raises or lets through. \<open>NotModelled\<close> is no exception of
  Python: it marks a run that leaves the typed object graph below (a sample name that is
  not a string, a value that is not a mapping stored where the record has a mapping), where
  the model says nothing about what Python does.
\<close>

datatype error =
    IOError
  | AttributeError
  | UnboundLocalError
  | KeyError string
  | TypeError
  | IndexError
  | ValueError
  | KeyboardInterrupt
  | SystemExit
  | AssertionError string
  | IPyradWarningExit string
  | OtherError
  | NotModelled

text \<open>
  What the module prints or logs. The fixed lines are \<open>Line\<close>; the formatted ones keep
  their arguments.
\<close>

datatype notice =
    Line string
  | LoadingAssembly string string
  | RemovingParameter string pyval
  | AddingParameter string pyval
  | LostAssemblyKeys nat string pyval "string list" pyval
  | LostSampleKeys nat string pyval "string list" pyval

text \<open>The announcement of line 41.\<close>

definition is_announcement :: "notice \<Rightarrow> bool" where
  "is_announcement n = (case n of LoadingAssembly nm p \<Rightarrow> True | _ \<Rightarrow> False)"

definition dict_keys :: "('k \<times> 'v) list \<Rightarrow> 'k list" where
  "dict_keys d = map fst d"

subsection \<open>The object graph\<close>

text \<open>
  A Sample has its \<open>stats\<close>, its \<open>statsfiles\<close> mapping, and its other attributes
  (\<open>files\<close> among them) kept by name. \<open>load_json\<close> first fills the \<open>samples\<close> mapping
  of an Assembly with the placeholder \<open>""\<close> and replaces each placeholder by a Sample
  later.
\<close>

record sample =
  stats :: pyval
  sample_statsfiles :: pydict
  sample_attrs :: pydict

datatype sample_slot = Placeholder | SampleObj sample

text \<open>
  An Assembly: the attributes the module reads by name are fields; \<open>attrs\<close> holds the rest
  of the instance dictionary (\<open>_version\<close>, \<open>dirs\<close>, \<open>populations\<close>, \<open>database\<close>,
  \<open>outfiles\<close>, \<open>barcodes\<close>, \<open>statsfiles\<close>, \<open>_ipcluster\<close>, \<open>_headers\<close>, ...) by name.
\<close>

record assembly =
  name :: string
  paramsdict :: pydict
  hackersonly :: pydict
  samples :: "(string \<times> sample_slot) list"
  attrs :: pydict

text \<open>
  Modelled from the spec: the reference-object factory \<open>ip.Assembly(name, quiet=True)\<close>,
  whose class is not part of this module. The current schema is a parameter: the
  parameter names of the running version in order, each with its default, which may
  depend on the name given to the factory; the \<open>_hackersonly\<close> mapping; and the other
  attributes of a new object. A new object has no samples.
\<close>

record schema =
  sch_params :: "(string \<times> (string \<Rightarrow> pyval)) list"
  sch_hackersonly :: pydict
  sch_attrs :: pydict

definition Assembly :: "schema \<Rightarrow> string \<Rightarrow> assembly" where
  "Assembly sch nm =
     \<lparr> name = nm,
       paramsdict = map (\<lambda>(k, dflt). (k, dflt nm)) (sch_params sch),
       hackersonly = sch_hackersonly sch,
       samples = [],
       attrs = sch_attrs sch \<rparr>"

subsection \<open>The world: snapshot files, saved objects, printed lines\<close>

text \<open>
  What \<open>open(name, "rb")\<close> followed by \<open>dill.load\<close> does at a path: \<open>open\<close> raises IOError
  (\<open>NoFile\<close>), \<open>dill.load\<close> raises (\<open>Unloadable\<close>), or an Assembly is deserialized.
  What is deserialized is an Assembly of some version: it has a name, a \<open>paramsdict\<close> and
  a \<open>_hackersonly\<close> mapping; a pickled object of another kind is outside the type.
  \<open>data.save()\<close> belongs to the Assembly class, outside this module: the world records
  the objects it was called on, in order, and the snapshot files the candidates are read
  from stay as they are. \<open>textfiles\<close> are the text files by path, with their contents;
  \<open>out\<close> are the lines printed so far.
\<close>

datatype pickle_file = NoFile | Unloadable error | Snapshot assembly

record world =
  snapshots :: "string \<Rightarrow> pickle_file"
  textfiles :: "string \<Rightarrow> string option"
  saved :: "assembly list"
  out :: "notice list"

definition print :: "notice list \<Rightarrow> world \<Rightarrow> world" where
  "print ls w = w\<lparr>out := out w @ ls\<rparr>"

definition save :: "assembly \<Rightarrow> world \<Rightarrow> world" where
  "save data w = w\<lparr>saved := saved w @ [data]\<rparr>"

subsection \<open>test_assembly\<close>

definition test_assembly :: "schema \<Rightarrow> assembly \<Rightarrow> bool" where
  "test_assembly sch data =
     (let new_assembly = Assembly sch (name data);
          new_params = set (dict_keys (paramsdict new_assembly));
          my_params = set (dict_keys (paramsdict data));
          params_diff = new_params - my_params;
          result = False;
          result = (if params_diff \<noteq> {} then True else result);
          my_hackerdict = set (dict_keys (hackersonly data));
          new_hackerdict = set (dict_keys (hackersonly new_assembly));
          hackerdict_diff = new_hackerdict - my_hackerdict;
          result = (if hackerdict_diff \<noteq> {} then True else result)
      in result)"

subsection \<open>update_assembly\<close>

text \<open>
  The loop of lines 135 to 137: for every key \<open>i\<close> of the loaded mapping that is not in
  \<open>removed_params\<close>, \<open>new_assembly.paramsdict[i] = data.paramsdict[i]\<close>. Assigning to a
  key of an OrderedDict keeps the key's position, or appends a new key
  (\<open>AList.update\<close>). The key iterated is a key of \<open>data.paramsdict\<close>, so the lookup finds it.
\<close>

fun carry_over :: "string list \<Rightarrow> string set \<Rightarrow> pydict \<Rightarrow> pydict \<Rightarrow> pydict" where
  "carry_over [] removed_params old new = new"
| "carry_over (i # rest) removed_params old new =
     carry_over rest removed_params old
       (if i \<notin> removed_params
        then (case map_of old i of Some v \<Rightarrow> AList.update i v new | None \<Rightarrow> new)
        else new)"

text \<open>
  The notices of lines 117 to 118 and 125 to 126. Python iterates a set in an order it
  does not specify; the model prints in the order of the mapping the keys come from.
\<close>

definition removing_notices :: "string set \<Rightarrow> pydict \<Rightarrow> notice list" where
  "removing_notices removed_params d =
     concat (map (\<lambda>i. case map_of d i of Some v \<Rightarrow> [RemovingParameter i v] | None \<Rightarrow> [])
       (filter (\<lambda>i. i \<in> removed_params) (remdups (dict_keys d))))"

definition adding_notices :: "string set \<Rightarrow> pydict \<Rightarrow> notice list" where
  "adding_notices added_params d =
     concat (map (\<lambda>i. case map_of d i of Some v \<Rightarrow> [AddingParameter i v] | None \<Rightarrow> [])
       (filter (\<lambda>i. i \<in> added_params) (remdups (dict_keys d))))"

definition banner :: string where
  "banner = ''##############################################################''"

definition please_note :: string where
  "please_note = ''Please take note of these changes.''"

text \<open>
  \<open>please_note\<close> stands for the three lines of lines 128 to 130. The pause of line 131
  changes nothing the model keeps.
\<close>

definition update_assembly :: "schema \<Rightarrow> assembly \<Rightarrow> world \<Rightarrow> assembly \<times> world" where
  "update_assembly sch data w =
     (let w = print [Line banner, Line ''Updating assembly to current version''] w;
          new_assembly = Assembly sch ''update'';
          data = data\<lparr>hackersonly := hackersonly new_assembly\<rparr>;
          new_params = set (dict_keys (paramsdict new_assembly));
          my_params = set (dict_keys (paramsdict data));
          removed_params = my_params - new_params;
          w = print (removing_notices removed_params (paramsdict data)) w;
          added_params = new_params - my_params;
          w = print (adding_notices added_params (paramsdict new_assembly)) w;
          w = print [Line please_note, Line banner] w;
          data = (if added_params \<noteq> {}
                  then data\<lparr>paramsdict :=
                         carry_over (dict_keys (paramsdict data)) removed_params
                           (paramsdict data) (paramsdict new_assembly)\<rparr>
                  else data);
          w = save data w
      in (data, w))"

subsection \<open>load_assembly\<close>

text \<open>
  One pass of the loop of lines 28 to 55 for the candidate \<open>nm\<close>. The state is the world
  and the local variable \<open>data\<close>, unbound (\<open>None\<close>) until a candidate has been loaded.
  An IOError or AttributeError of the body is swallowed; any other exception leaves the
  function. \<open>shorten\<close> is \<open>name.replace(os.path.expanduser("~"), "~")\<close>.
\<close>

definition try_candidate ::
  "schema \<Rightarrow> (string \<Rightarrow> string) \<Rightarrow> bool \<Rightarrow> string \<Rightarrow> world \<times> assembly option
     \<Rightarrow> error + world \<times> assembly option" where
  "try_candidate sch shorten quiet nm st =
     (case st of (w, data) \<Rightarrow>
        (case snapshots w nm of
           NoFile \<Rightarrow> Inr (w, data)
         | Unloadable e \<Rightarrow>
             (if e = IOError \<or> e = AttributeError then Inr (w, data) else Inl e)
         | Snapshot loaded \<Rightarrow>
             (let w = (if \<not> quiet
                       then print [LoadingAssembly (name loaded) (shorten nm)] w else w)
              in if test_assembly sch loaded
                 then (let w = print [Line ''  Attempting to update assembly to newest version.''] w;
                           (data', w') = update_assembly sch loaded w
                       in Inr (w', Some data'))
                 else Inr (w, Some loaded))))"

fun load_loop ::
  "schema \<Rightarrow> (string \<Rightarrow> string) \<Rightarrow> bool \<Rightarrow> string list \<Rightarrow> world \<times> assembly option
     \<Rightarrow> error + world \<times> assembly option" where
  "load_loop sch shorten quiet [] st = Inr st"
| "load_loop sch shorten quiet (nm # locations) st =
     (case try_candidate sch shorten quiet nm st of
        Inl e \<Rightarrow> Inl e
      | Inr st' \<Rightarrow> load_loop sch shorten quiet locations st')"

definition not_found_message :: "string \<Rightarrow> string" where
  "not_found_message assemblyname =
     ''Attempting to load assembly. File not found: '' @ assemblyname"

definition load_assembly ::
  "schema \<Rightarrow> (string \<Rightarrow> string) \<Rightarrow> string \<Rightarrow> bool \<Rightarrow> world \<Rightarrow> error + assembly \<times> world" where
  "load_assembly sch shorten assemblyname quiet w =
     (let locations = [assemblyname];
          locations = locations @ [assemblyname @ ''.assembly'']
      in case load_loop sch shorten quiet locations (w, None) of
           Inl e \<Rightarrow> Inl e
         | Inr (w', None) \<Rightarrow> Inl (AssertionError (not_found_message assemblyname))
         | Inr (w', Some data) \<Rightarrow> Inr (data, w'))"

subsection \<open>save_json\<close>

text \<open>
  \<open>d[k]\<close> on a mapping raises KeyError for a key it does not have.
\<close>

definition dict_getitem :: "pydict \<Rightarrow> string \<Rightarrow> error + pyval" where
  "dict_getitem d k = (case map_of d k of None \<Rightarrow> Inl (KeyError k) | Some v \<Rightarrow> Inr v)"

definition bind_result :: "error + 'a \<Rightarrow> ('a \<Rightarrow> error + 'b) \<Rightarrow> error + 'b" where
  "bind_result r f = (case r of Inl e \<Rightarrow> Inl e | Inr v \<Rightarrow> f v)"

text \<open>
  \<open>datadict\<close> of lines 153 to 163: nine entries of the instance dictionary, in this order;
  \<open>samples\<close> is reduced to the list of its keys. \<open>name\<close>, \<open>paramsdict\<close> and \<open>samples\<close> are
  fields of the record; the other six are read from \<open>attrs\<close>.
\<close>

definition datadict :: "assembly \<Rightarrow> error + pydict" where
  "datadict data =
     bind_result (dict_getitem (attrs data) ''_version'') (\<lambda>version.
     bind_result (dict_getitem (attrs data) ''dirs'') (\<lambda>dirs.
     bind_result (dict_getitem (attrs data) ''populations'') (\<lambda>populations.
     bind_result (dict_getitem (attrs data) ''database'') (\<lambda>database.
     bind_result (dict_getitem (attrs data) ''outfiles'') (\<lambda>outfiles.
     bind_result (dict_getitem (attrs data) ''barcodes'') (\<lambda>barcodes.
       Inr [(''_version'', version),
            (''name'', PStr (name data)),
            (''dirs'', dirs),
            (''paramsdict'', PDict (paramsdict data)),
            (''samples'', PList (map PStr (dict_keys (samples data)))),
            (''populations'', populations),
            (''database'', database),
            (''outfiles'', outfiles),
            (''barcodes'', barcodes)]))))))"

text \<open>
  The loop of lines 166 to 168. \<open>sample._to_fulldict()\<close> belongs to the Sample class,
  outside this module, and is a parameter; the placeholder \<open>""\<close> is a string and has no
  such method.
\<close>

fun sampledict ::
  "(sample \<Rightarrow> pyval) \<Rightarrow> (string \<times> sample_slot) list \<Rightarrow> pydict \<Rightarrow> error + pydict" where
  "sampledict to_fulldict [] acc = Inr acc"
| "sampledict to_fulldict ((key, slot) # rest) acc =
     (case slot of
        Placeholder \<Rightarrow> Inl AttributeError
      | SampleObj sample \<Rightarrow>
          sampledict to_fulldict rest (AList.update key (to_fulldict sample) acc))"

text \<open>
  The document handed to \<open>json.dumps\<close> in lines 171 to 176: a plain dict with the two
  keys \<open>assembly\<close> and \<open>samples\<close>.
\<close>

definition save_json_document :: "(sample \<Rightarrow> pyval) \<Rightarrow> assembly \<Rightarrow> error + pyval" where
  "save_json_document to_fulldict data =
     bind_result (datadict data) (\<lambda>dd.
     bind_result (sampledict to_fulldict (samples data) []) (\<lambda>sd.
       Inr (PDict [(''assembly'', PDict dd), (''samples'', PDict sd)])))"

text \<open>
  \<open>os.path.join(a, b)\<close> of Python 2.7 on POSIX for a string \<open>b\<close>: \<open>b\<close> alone when it
  starts with a slash; otherwise \<open>a\<close> is asked for \<open>endswith\<close>, which only a string has.
\<close>

definition os_path_join :: "pyval \<Rightarrow> string \<Rightarrow> error + string" where
  "os_path_join a b =
     (if take 1 b = ''/'' then Inr b
      else (case a of
              PStr s \<Rightarrow> Inr (if s = [] \<or> last s = CHR ''/'' then s @ b else s @ ''/'' @ b)
            | _ \<Rightarrow> Inl AttributeError))"

text \<open>
  \<open>data.dirs.project\<close> of line 179: \<open>dirs\<close> is an attribute holding a mapping with
  attribute access; a missing attribute or key is an AttributeError.
\<close>

definition dirs_project :: "assembly \<Rightarrow> error + pyval" where
  "dirs_project data =
     (case map_of (attrs data) ''dirs'' of
        Some (PDict d) \<Rightarrow> (case map_of d ''project'' of Some p \<Rightarrow> Inr p | None \<Rightarrow> Inl AttributeError)
      | _ \<Rightarrow> Inl AttributeError)"

text \<open>
  One pass of the body of \<open>try\<close> in lines 184 to 187, as the environment decides it: the
  file is opened, written and closed (\<open>Completed\<close>), or an exception is raised inside the
  \<open>try\<close>, leaving the file as it was (\<open>None\<close>) or opened and holding what was written so
  far. A signal that arrives outside the \<open>try\<close>, while the handler prints, is not part of
  the model.
\<close>

datatype attempt = Completed | Raised error "string option"

text \<open>
  The loop of lines 182 to 190. \<open>attempts i\<close> is what happens in the \<open>i\<close>-th pass.
  KeyboardInterrupt and SystemExit are caught: a dot is printed and the loop goes on; any
  other exception leaves the function. The loop ends only when a pass completes, so it is
  run on fuel: \<open>None\<close> is a loop that has not ended yet.
\<close>

fun write_loop ::
  "nat \<Rightarrow> (nat \<Rightarrow> attempt) \<Rightarrow> nat \<Rightarrow> string \<Rightarrow> string \<Rightarrow> world \<Rightarrow> (error + world) option" where
  "write_loop 0 attempts i assemblypath fulldump w = None"
| "write_loop (Suc fuel) attempts i assemblypath fulldump w =
     (case attempts i of
        Completed \<Rightarrow> Some (Inr (w\<lparr>textfiles := (textfiles w)(assemblypath \<mapsto> fulldump)\<rparr>))
      | Raised e partial \<Rightarrow>
          (let w = (case partial of
                      None \<Rightarrow> w
                    | Some written \<Rightarrow> w\<lparr>textfiles := (textfiles w)(assemblypath \<mapsto> written)\<rparr>)
           in if e = KeyboardInterrupt \<or> e = SystemExit
              then write_loop fuel attempts (Suc i) assemblypath fulldump (print [Line ''.''] w)
              else Some (Inl e)))"

text \<open>\<open>json.dumps\<close> is the parameter \<open>dumps\<close>.\<close>

definition save_json ::
  "(sample \<Rightarrow> pyval) \<Rightarrow> (pyval \<Rightarrow> string) \<Rightarrow> nat \<Rightarrow> (nat \<Rightarrow> attempt) \<Rightarrow> assembly \<Rightarrow> world
     \<Rightarrow> (error + world) option" where
  "save_json to_fulldict dumps fuel attempts data w =
     (case save_json_document to_fulldict data of
        Inl e \<Rightarrow> Some (Inl e)
      | Inr document \<Rightarrow>
          (let fulldump = dumps document
           in case bind_result (dirs_project data) (\<lambda>p. os_path_join p (name data @ ''.json'')) of
                Inl e \<Rightarrow> Some (Inl e)
              | Inr assemblypath \<Rightarrow> write_loop fuel attempts 0 assemblypath fulldump w))"

subsection \<open>load_json\<close>

text \<open>
  Subscripting with a string, \<open>pop\<close> and \<open>keys\<close> on a parsed JSON value, as Python 2.7
  has them: only a mapping can be subscripted with a string; a list has \<open>pop\<close> but takes
  an integer; strings, numbers, booleans and None have neither \<open>pop\<close> nor \<open>keys\<close>.
  \<open>pop\<close> returns the value and the mapping without the key.
\<close>

definition getitem :: "pyval \<Rightarrow> string \<Rightarrow> error + pyval" where
  "getitem v k = (case v of PDict d \<Rightarrow> dict_getitem d k | _ \<Rightarrow> Inl TypeError)"

definition pop :: "pyval \<Rightarrow> string \<Rightarrow> error + pyval \<times> pyval" where
  "pop v k =
     (case v of
        PDict d \<Rightarrow>
          (case map_of d k of
             None \<Rightarrow> Inl (KeyError k)
           | Some x \<Rightarrow> Inr (x, PDict (AList.delete k d)))
      | PList xs \<Rightarrow> Inl TypeError
      | _ \<Rightarrow> Inl AttributeError)"

definition pykeys :: "pyval \<Rightarrow> error + string list" where
  "pykeys v = (case v of PDict d \<Rightarrow> Inr (dict_keys d) | _ \<Rightarrow> Inl AttributeError)"

text \<open>
  What the module calls and does not define: \<open>json.loads\<close> with the ordered hook (\<open>None\<close>
  when it raises ValueError), \<open>s.replace(os.path.expanduser("~"), "~")\<close>,
  \<open>os.path.splitext(s)[0]\<close>, \<open>Assembly.set_params\<close> and \<open>Assembly.build_stat\<close> (\<open>None\<close>
  for an empty table).
\<close>

record collaborators =
  json_loads :: "string \<Rightarrow> pyval option"
  shortpath :: "string \<Rightarrow> string"
  splitext_root :: "string \<Rightarrow> string"
  set_params :: "string \<Rightarrow> pyval \<Rightarrow> assembly \<Rightarrow> error + assembly"
  build_stat :: "string \<Rightarrow> assembly \<Rightarrow> pyval option"

text \<open>
  Modelled from the spec: the reference-object factory \<open>ip.Sample()\<close>, whose class is not
  part of this module: the index of the \<open>stats\<close> record with its defaults, the
  \<open>statsfiles\<close> records by category, and the other attributes of a new Sample.
\<close>

record sample_schema =
  smp_stats :: pydict
  smp_statsfiles :: "(string \<times> pydict) list"
  smp_attrs :: pydict

definition Sample :: "sample_schema \<Rightarrow> sample" where
  "Sample ssch =
     \<lparr> stats = PDict (smp_stats ssch),
       sample_statsfiles = map (\<lambda>(k, d). (k, PDict d)) (smp_statsfiles ssch),
       sample_attrs = smp_attrs ssch \<rparr>"

text \<open>
  The loop of lines 200 to 206: every candidate is tried; an IOError is swallowed, a
  ValueError of \<open>json.loads\<close> is not; each candidate that parses rebinds \<open>fullj\<close>, which
  is unbound (\<open>None\<close>) before.
\<close>

fun read_loop ::
  "(string \<Rightarrow> pyval option) \<Rightarrow> world \<Rightarrow> string list \<Rightarrow> pyval option \<Rightarrow> error + pyval option" where
  "read_loop loads w [] fullj = Inr fullj"
| "read_loop loads w (inpath # checkfor) fullj =
     (case textfiles w inpath of
        None \<Rightarrow> read_loop loads w checkfor fullj
      | Some text \<Rightarrow>
          (case loads text of
             None \<Rightarrow> Inl ValueError
           | Some parsed \<Rightarrow> read_loop loads w checkfor (Some parsed)))"

text \<open>
  The body of \<open>try\<close> in lines 210 to 213. Reading the unbound \<open>fullj\<close> raises
  UnboundLocalError. \<open>os.path.splitext\<close> asks its argument for \<open>rfind\<close>, which only a
  string has. \<open>pop\<close> changes the \<open>assembly\<close> section inside \<open>fullj\<close>: the section
  is carried along as \<open>asm\<close> from here on, and the document itself is read again only
  for its \<open>samples\<close> entry. The result is the old name, the old path, the \<open>assembly\<close>
  section without \<open>name\<close>, the document, and the new object.
\<close>

definition null_assembly ::
  "collaborators \<Rightarrow> schema \<Rightarrow> pyval option
     \<Rightarrow> error + string \<times> string \<times> pyval \<times> pyval \<times> assembly" where
  "null_assembly c sch fullj =
     (case fullj of
        None \<Rightarrow> Inl UnboundLocalError
      | Some fj \<Rightarrow>
          bind_result (getitem fj ''assembly'') (\<lambda>asm.
          bind_result (pop asm ''name'') (\<lambda>(oldname, asm).
          bind_result (getitem asm ''dirs'') (\<lambda>dirs.
          bind_result (getitem dirs ''project'') (\<lambda>olddir.
          bind_result (case oldname of PStr s \<Rightarrow> Inr s | _ \<Rightarrow> Inl AttributeError) (\<lambda>oldname.
          bind_result (os_path_join olddir (splitext_root c oldname @ ''.json'')) (\<lambda>oldpath.
            Inr (oldname, oldpath, asm, fj, Assembly sch oldname))))))))"

definition could_not_find :: "string \<Rightarrow> string" where
  "could_not_find inpath = ''Could not find saved Assembly file (.json) in path: '' @ inpath"

text \<open>
  Line 228: a dict with the placeholder \<open>""\<close> under every item of \<open>samplekeys\<close>. Iterating
  a mapping gives its keys, a string its characters; a number, a boolean or None cannot be
  iterated; a list or a mapping cannot be a key. Python does not specify the order of the
  dict; the model keeps the order of the names.
\<close>

fun item_names :: "pyval list \<Rightarrow> error + string list" where
  "item_names [] = Inr []"
| "item_names (PStr n # rest) =
     (case item_names rest of Inl e \<Rightarrow> Inl e | Inr ns \<Rightarrow> Inr (n # ns))"
| "item_names (PList xs # rest) = Inl TypeError"
| "item_names (PDict d # rest) = Inl TypeError"
| "item_names (x # rest) = Inl NotModelled"

definition placeholders :: "pyval \<Rightarrow> error + (string \<times> sample_slot) list" where
  "placeholders samplekeys =
     bind_result
       (case samplekeys of
          PList xs \<Rightarrow> item_names xs
        | PDict d \<Rightarrow> Inr (dict_keys d)
        | PStr s \<Rightarrow> Inr (map (\<lambda>ch. [ch]) s)
        | _ \<Rightarrow> Inl TypeError)
       (\<lambda>names. Inr (map (\<lambda>n. (n, Placeholder)) (remdups names)))"

text \<open>The loop of lines 233 to 235.\<close>

fun set_all ::
  "(string \<Rightarrow> pyval \<Rightarrow> assembly \<Rightarrow> error + assembly) \<Rightarrow> pydict \<Rightarrow> assembly \<Rightarrow> error + assembly" where
  "set_all setp [] null = Inr null"
| "set_all setp ((param, val) # rest) null =
     (if param \<noteq> ''assembly_name''
      then (case setp param val null of
              Inl e \<Rightarrow> Inl e
            | Inr null' \<Rightarrow> set_all setp rest null')
      else set_all setp rest null)"

text \<open>
  The instance dictionary of an Assembly: the typed fields under their Python names, and
  \<open>attrs\<close>. Setting a field of the record to a value its type does not hold leaves the
  model.
\<close>

definition instance_keys :: "assembly \<Rightarrow> string list" where
  "instance_keys a = [''name'', ''paramsdict'', ''_hackersonly'', ''samples''] @ dict_keys (attrs a)"

definition setattr_assembly :: "string \<Rightarrow> pyval \<Rightarrow> assembly \<Rightarrow> error + assembly" where
  "setattr_assembly key v a =
     (if key = ''name''
      then (case v of PStr s \<Rightarrow> Inr (a\<lparr>name := s\<rparr>) | _ \<Rightarrow> Inl NotModelled)
      else if key = ''paramsdict''
      then (case v of PDict d \<Rightarrow> Inr (a\<lparr>paramsdict := d\<rparr>) | _ \<Rightarrow> Inl NotModelled)
      else if key = ''_hackersonly''
      then (case v of PDict d \<Rightarrow> Inr (a\<lparr>hackersonly := d\<rparr>) | _ \<Rightarrow> Inl NotModelled)
      else if key = ''samples'' then Inl NotModelled
      else Inr (a\<lparr>attrs := AList.update key v (attrs a)\<rparr>))"

definition getattr :: "assembly \<Rightarrow> string \<Rightarrow> error + pyval" where
  "getattr a key =
     (case map_of (attrs a) key of None \<Rightarrow> Inl AttributeError | Some v \<Rightarrow> Inr v)"

text \<open>The loop of lines 258 to 259, over \<open>sharedkeys\<close> in the order of the document.\<close>

fun copy_shared :: "string list \<Rightarrow> pyval \<Rightarrow> assembly \<Rightarrow> error + assembly" where
  "copy_shared [] asm null = Inr null"
| "copy_shared (key # rest) asm null =
     bind_result (getitem asm key) (\<lambda>v.
     bind_result (setattr_assembly key v null) (\<lambda>null'.
       copy_shared rest asm null'))"

text \<open>
  Lines 262 to 269: the first sample of the \<open>samples\<close> section stands for all. Indexing
  the empty list of names raises IndexError. The result is \<open>sample_keys\<close>, \<open>stats_keys\<close>,
  \<open>statsfiles_keys\<close> and \<open>ind_statkeys\<close>.
\<close>

fun chain_keys :: "pyval \<Rightarrow> string list \<Rightarrow> error + string list" where
  "chain_keys sf [] = Inr []"
| "chain_keys sf (i # rest) =
     bind_result (getitem sf i) (\<lambda>series.
     bind_result (pykeys series) (\<lambda>ks.
     bind_result (chain_keys sf rest) (\<lambda>more. Inr (ks @ more))))"

definition first_sample_keys ::
  "pyval \<Rightarrow> error + string list \<times> string list \<times> string list \<times> string list" where
  "first_sample_keys fj =
     bind_result (getitem fj ''samples'') (\<lambda>smp.
     bind_result (pykeys smp) (\<lambda>sample_names.
     bind_result (case sample_names of [] \<Rightarrow> Inl IndexError | n # ns \<Rightarrow> Inr n) (\<lambda>first.
     bind_result (getitem smp first) (\<lambda>s0.
     bind_result (pykeys s0) (\<lambda>sample_keys.
     bind_result (getitem s0 ''stats'') (\<lambda>st.
     bind_result (pykeys st) (\<lambda>stats_keys.
     bind_result (getitem s0 ''statsfiles'') (\<lambda>sf.
     bind_result (pykeys sf) (\<lambda>statsfiles_keys.
     bind_result (chain_keys sf statsfiles_keys) (\<lambda>ind_statkeys.
       Inr (sample_keys, stats_keys, statsfiles_keys, ind_statkeys)))))))))))"

text \<open>
  Lines 300 to 312 for one sample name: a new Sample with empty \<open>statsfiles\<close> and
  \<open>files\<close>, its \<open>stats\<close> and every \<open>statsfiles\<close> category of the first sample read from
  the document. \<open>pd.Series\<close> keeps the record it is given.
\<close>

fun read_statsfiles :: "pyval \<Rightarrow> string list \<Rightarrow> pydict \<Rightarrow> error + pydict" where
  "read_statsfiles sample_record [] acc = Inr acc"
| "read_statsfiles sample_record (statskey # rest) acc =
     bind_result (getitem sample_record ''statsfiles'') (\<lambda>sf.
     bind_result (getitem sf statskey) (\<lambda>series.
       read_statsfiles sample_record rest (AList.update statskey series acc)))"

definition fill_sample ::
  "sample_schema \<Rightarrow> pyval \<Rightarrow> string list \<Rightarrow> string \<Rightarrow> error + sample" where
  "fill_sample ssch smp statsfiles_keys sample_name =
     (let new = (Sample ssch)\<lparr>sample_statsfiles := [],
                  sample_attrs := AList.update ''files'' (PDict []) (smp_attrs ssch)\<rparr>
      in bind_result (getitem smp sample_name) (\<lambda>sample_record.
         bind_result (getitem sample_record ''stats'') (\<lambda>sdat.
         bind_result (read_statsfiles sample_record statsfiles_keys []) (\<lambda>sfs.
           Inr (new\<lparr>stats := sdat, sample_statsfiles := sfs\<rparr>)))))"

fun fill_samples ::
  "sample_schema \<Rightarrow> pyval \<Rightarrow> string list \<Rightarrow> (string \<times> sample_slot) list
     \<Rightarrow> error + (string \<times> sample_slot) list" where
  "fill_samples ssch smp statsfiles_keys [] = Inr []"
| "fill_samples ssch smp statsfiles_keys ((sample_name, slot) # rest) =
     bind_result (fill_sample ssch smp statsfiles_keys sample_name) (\<lambda>s.
     bind_result (fill_samples ssch smp statsfiles_keys rest) (\<lambda>more.
       Inr ((sample_name, SampleObj s) # more)))"

text \<open>
  The loop of lines 315 to 318: a category whose table is not empty is stored in
  \<open>null.statsfiles\<close>, which has to be there and to be a mapping.
\<close>

fun aggregate ::
  "(string \<Rightarrow> assembly \<Rightarrow> pyval option) \<Rightarrow> string list \<Rightarrow> assembly \<Rightarrow> error + assembly" where
  "aggregate build [] null = Inr null"
| "aggregate build (statskey # rest) null =
     (case build statskey null of
        None \<Rightarrow> aggregate build rest null
      | Some indstat \<Rightarrow>
          bind_result (getattr null ''statsfiles'') (\<lambda>sfs.
            case sfs of
              PDict d \<Rightarrow>
                aggregate build rest
                  (null\<lparr>attrs := AList.update ''statsfiles''
                                    (PDict (AList.update statskey indstat d)) (attrs null)\<rparr>)
            | _ \<Rightarrow> Inl TypeError))"

text \<open>The loops of lines 325 to 328.\<close>

fun copy_sample_attrs :: "pyval \<Rightarrow> string list \<Rightarrow> sample \<Rightarrow> error + sample" where
  "copy_sample_attrs sample_record [] s = Inr s"
| "copy_sample_attrs sample_record (key # rest) s =
     bind_result (getitem sample_record key) (\<lambda>v.
       copy_sample_attrs sample_record rest
         (s\<lparr>sample_attrs := AList.update key v (sample_attrs s)\<rparr>))"

fun copy_samples_attrs ::
  "pyval \<Rightarrow> string list \<Rightarrow> (string \<times> sample_slot) list \<Rightarrow> error + (string \<times> sample_slot) list" where
  "copy_samples_attrs smp shared_keys [] = Inr []"
| "copy_samples_attrs smp shared_keys ((sample_name, slot) # rest) =
     bind_result
       (if shared_keys = [] then Inr slot
        else (case slot of
                Placeholder \<Rightarrow> Inl AttributeError
              | SampleObj s \<Rightarrow>
                  bind_result (getitem smp sample_name) (\<lambda>sample_record.
                  bind_result (copy_sample_attrs sample_record shared_keys s) (\<lambda>s'.
                    Inr (SampleObj s')))))
       (\<lambda>slot'.
     bind_result (copy_samples_attrs smp shared_keys rest) (\<lambda>more.
       Inr ((sample_name, slot') # more)))"

text \<open>
  Lines 331 to 334: \<open>ObjDict(x)\<close> builds a mapping as \<open>dict(x)\<close> does. A number, a
  boolean or None cannot be iterated; what \<open>dict\<close> makes of a list or a string is left
  out of the model.
\<close>

definition ObjDict :: "pyval \<Rightarrow> error + pyval" where
  "ObjDict v =
     (case v of
        PDict d \<Rightarrow> Inr (PDict d)
      | PList xs \<Rightarrow> Inl NotModelled
      | PStr s \<Rightarrow> Inl NotModelled
      | _ \<Rightarrow> Inl TypeError)"

fun make_objdicts :: "string list \<Rightarrow> assembly \<Rightarrow> error + assembly" where
  "make_objdicts [] null = Inr null"
| "make_objdicts (key # rest) null =
     bind_result (getattr null key) (\<lambda>v.
     bind_result (ObjDict v) (\<lambda>od.
       make_objdicts rest (null\<lparr>attrs := AList.update key od (attrs null)\<rparr>)))"

text \<open>
  The warning of lines 246 to 255 and of lines 286 to 295: its arguments are evaluated
  when it is logged, \<open>fullj["assembly"]["_version"]\<close> and \<open>null._version\<close> among them.
\<close>

definition log_lost ::
  "(nat \<Rightarrow> string \<Rightarrow> pyval \<Rightarrow> string list \<Rightarrow> pyval \<Rightarrow> notice) \<Rightarrow> string list \<Rightarrow> string \<Rightarrow> pyval
     \<Rightarrow> assembly \<Rightarrow> world \<Rightarrow> error + world" where
  "log_lost mk lost oldname asm null w =
     bind_result (getitem asm ''_version'') (\<lambda>c.
     bind_result (getattr null ''_version'') (\<lambda>e.
       Inr (print [mk (length lost) oldname c lost e] w)))"

text \<open>
  Lines 222 to 336, after the new object has been made. Python iterates sets in an order
  it does not specify; the model iterates in the order of the document.
\<close>

definition reconcile ::
  "collaborators \<Rightarrow> sample_schema \<Rightarrow> bool \<Rightarrow> string \<Rightarrow> string \<Rightarrow> pyval \<Rightarrow> pyval \<Rightarrow> assembly
     \<Rightarrow> world \<Rightarrow> error + assembly \<times> world" where
  "reconcile c ssch quiet oldname oldpath asm fj null w =
     (let w = (if \<not> quiet then print [LoadingAssembly oldname (shortpath c oldpath)] w else w)
      in
      bind_result (pop asm ''samples'') (\<lambda>(samplekeys, asm).
      bind_result (placeholders samplekeys) (\<lambda>slots.
      bind_result (pop asm ''paramsdict'') (\<lambda>(oldparams, asm).
      bind_result (case oldparams of PDict d \<Rightarrow> Inr d | _ \<Rightarrow> Inl AttributeError) (\<lambda>items.
      bind_result (set_all (set_params c) items (null\<lparr>samples := slots\<rparr>)) (\<lambda>null.
      bind_result (pykeys asm) (\<lambda>oldkeys.
      (let newkeys = instance_keys null;
           sharedkeys = filter (\<lambda>k. k \<in> set newkeys) oldkeys;
           lostkeys = filter (\<lambda>k. k \<notin> set newkeys) oldkeys
       in
      bind_result (if lostkeys \<noteq> [] then log_lost LostAssemblyKeys lostkeys oldname asm null w
                   else Inr w) (\<lambda>w.
      bind_result (copy_shared sharedkeys asm null) (\<lambda>null.
      bind_result (first_sample_keys fj) (\<lambda>(sample_keys, stats_keys, statsfiles_keys, ind_statkeys).
      (let newkeys = ''stats'' # ''statsfiles'' # dict_keys (smp_attrs ssch);
           newstats = dict_keys (smp_stats ssch);
           newindstats = concat (map (\<lambda>(k, d). dict_keys d) (smp_statsfiles ssch));
           diffattr = filter (\<lambda>k. k \<notin> set newkeys) sample_keys;
           diffstats = filter (\<lambda>k. k \<notin> set newstats) stats_keys;
           diffindstats = filter (\<lambda>k. k \<notin> set newindstats) ind_statkeys;
           alldiffs = remdups (diffattr @ diffstats @ diffindstats)
       in
      bind_result (if list_ex (\<lambda>k. k \<noteq> []) alldiffs
                   then log_lost LostSampleKeys alldiffs oldname asm null w
                   else Inr w) (\<lambda>w.
      bind_result (getitem fj ''samples'') (\<lambda>smp.
      bind_result (fill_samples ssch smp statsfiles_keys (samples null)) (\<lambda>filled.
      bind_result (aggregate (build_stat c) statsfiles_keys (null\<lparr>samples := filled\<rparr>)) (\<lambda>null.
      (let shared_keys = filter (\<lambda>k. k \<in> set newkeys \<and> k \<noteq> ''stats'' \<and> k \<noteq> ''statsfiles'')
                           sample_keys
       in
      bind_result (copy_samples_attrs smp shared_keys (samples null)) (\<lambda>copied.
      bind_result (make_objdicts [''dirs'', ''statsfiles'', ''populations'', ''outfiles'']
                     (null\<lparr>samples := copied\<rparr>)) (\<lambda>null.
        Inr (null, w))))))))))))))))))))"

text \<open>
  \<open>load_json\<close>. After the loop \<open>inpath\<close> is the last candidate. The handler of lines 215
  to 219 turns an AttributeError of the \<open>try\<close> into IPyradWarningExit and no other
  exception.
\<close>

definition load_json ::
  "collaborators \<Rightarrow> schema \<Rightarrow> sample_schema \<Rightarrow> string \<Rightarrow> bool \<Rightarrow> world
     \<Rightarrow> error + assembly \<times> world" where
  "load_json c sch ssch path quiet w =
     (let checkfor = [path, path @ ''.json''];
          inpath = last checkfor
      in bind_result (read_loop (json_loads c) w checkfor None) (\<lambda>fullj.
           case null_assembly c sch fullj of
             Inl e \<Rightarrow>
               (if e = AttributeError then Inl (IPyradWarningExit (could_not_find inpath))
                else Inl e)
           | Inr (oldname, oldpath, asm, fj, null) \<Rightarrow>
               reconcile c ssch quiet oldname oldpath asm fj null w))"

subsection \<open>Concrete schemas, objects and file systems\<close>

text \<open>
  A schema with three parameters and one \<open>_hackersonly\<close> option; an object saved by an
  older version that lacks \<open>max_low_qual_bases\<close> and still has \<open>excludes\<close>; and an object
  that has every current parameter and still has \<open>excludes\<close>.
\<close>

definition schema0 :: schema where
  "schema0 =
     \<lparr> sch_params = [(''assembly_name'', PStr), (''project_dir'', \<lambda>_. PStr ''./''),
                     (''max_low_qual_bases'', \<lambda>_. PNum 5)],
       sch_hackersonly = [(''random_seed'', PNum 42)],
       sch_attrs = [(''_version'', PStr ''0.2.0''), (''dirs'', PDict []),
                    (''populations'', PDict []), (''database'', PStr []),
                    (''outfiles'', PDict []), (''barcodes'', PDict []),
                    (''statsfiles'', PDict []), (''_ipcluster'', PDict []),
                    (''_headers'', PNum 0)] \<rparr>"

definition old_missing :: assembly where
  "old_missing =
     \<lparr> name = ''proj'',
       paramsdict = [(''assembly_name'', PStr ''proj''), (''project_dir'', PStr ''/data''),
                     (''excludes'', PStr ''s3'')],
       hackersonly = [(''random_seed'', PNum 7)],
       samples = [],
       attrs = [(''_version'', PStr ''0.1.0''), (''dirs'', PDict [(''project'', PStr ''/data'')])] \<rparr>"

definition old_extra :: assembly where
  "old_extra =
     \<lparr> name = ''proj'',
       paramsdict = [(''assembly_name'', PStr ''proj''), (''project_dir'', PStr ''/data''),
                     (''max_low_qual_bases'', PNum 9), (''excludes'', PStr ''s3'')],
       hackersonly = [(''random_seed'', PNum 7)],
       samples = [],
       attrs = [(''_version'', PStr ''0.1.0''), (''dirs'', PDict [(''project'', PStr ''/data'')])] \<rparr>"

definition world0 :: "(string \<Rightarrow> pickle_file) \<Rightarrow> world" where
  "world0 fs = \<lparr> snapshots = fs, textfiles = (\<lambda>p. None), saved = [], out = [] \<rparr>"

definition only_extended :: "string \<Rightarrow> pickle_file" where
  "only_extended p = (if p = ''proj.assembly'' then Snapshot old_extra else NoFile)"

definition second_object :: assembly where
  "second_object = old_extra\<lparr>name := ''second''\<rparr>"

definition both_present :: "string \<Rightarrow> pickle_file" where
  "both_present p =
     (if p = ''proj'' then Snapshot old_extra
      else if p = ''proj.assembly'' then Snapshot second_object
      else NoFile)"

definition first_drifted :: "string \<Rightarrow> pickle_file" where
  "first_drifted p =
     (if p = ''proj'' then Snapshot old_missing
      else if p = ''proj.assembly'' then Snapshot second_object
      else NoFile)"

definition nothing_present :: "string \<Rightarrow> pickle_file" where
  "nothing_present p = NoFile"

definition missing_key :: "string \<Rightarrow> pickle_file" where
  "missing_key p = (if p = ''proj.assembly'' then Snapshot old_missing else NoFile)"

text \<open>
  A project with two samples and every attribute \<open>save_json\<close> reads, a stand-in for
  \<open>_to_fulldict\<close> and for \<open>json.dumps\<close>, and a run in which the first two passes of the
  write loop are interrupted.
\<close>

definition sample0 :: sample where
  "sample0 = \<lparr> stats = PDict [(''state'', PNum 1)],
               sample_statsfiles = [(''s1'', PDict [(''reads_raw'', PNum 100)])],
               sample_attrs = [(''name'', PStr ''s1''), (''files'', PDict [])] \<rparr>"

definition to_fulldict0 :: "sample \<Rightarrow> pyval" where
  "to_fulldict0 s =
     PDict ((''stats'', stats s) # (''statsfiles'', PDict (sample_statsfiles s)) # sample_attrs s)"

definition project0 :: assembly where
  "project0 =
     \<lparr> name = ''proj'',
       paramsdict = [(''assembly_name'', PStr ''proj''), (''project_dir'', PStr ''/data''),
                     (''max_low_qual_bases'', PNum 5)],
       hackersonly = [(''random_seed'', PNum 42)],
       samples = [(''s1'', SampleObj sample0), (''s2'', SampleObj sample0)],
       attrs = [(''_version'', PStr ''0.2.0''),
                (''dirs'', PDict [(''project'', PStr ''/data'')]),
                (''populations'', PDict []),
                (''database'', PStr ''''),
                (''outfiles'', PDict []),
                (''barcodes'', PDict []),
                (''statsfiles'', PDict []),
                (''_ipcluster'', PDict [(''pids'', PList [])]),
                (''_headers'', PNum 1)] \<rparr>"

definition dumps0 :: "pyval \<Rightarrow> string" where
  "dumps0 v = (case v of PDict d \<Rightarrow> concat (map fst d) | _ \<Rightarrow> ''?'')"

definition interrupted_twice :: "nat \<Rightarrow> attempt" where
  "interrupted_twice i =
     (if i = 0 then Raised KeyboardInterrupt (Some ''{'')
      else if i = 1 then Raised SystemExit None
      else Completed)"

text \<open>
  Three parsed documents: what \<open>save_json\<close> writes for the project without its samples
  and with them, and a document whose \<open>assembly\<close> entry is a string. The stand-ins for
  the collaborators of \<open>load_json\<close>: \<open>json.loads\<close> knows the three texts,
  \<open>set_params\<close> stores the value, \<open>build_stat\<close> finds every table empty. Two file
  systems hold the texts.
\<close>

definition doc_without_samples :: pyval where
  "doc_without_samples =
     PDict
       [(''assembly'', PDict
           [(''_version'', PStr ''0.2.0''),
            (''name'', PStr ''proj''),
            (''dirs'', PDict [(''project'', PStr ''/data'')]),
            (''paramsdict'', PDict [(''assembly_name'', PStr ''proj''),
                                    (''project_dir'', PStr ''/data''),
                                    (''max_low_qual_bases'', PNum 5)]),
            (''samples'', PList []),
            (''populations'', PDict []),
            (''database'', PStr []),
            (''outfiles'', PDict []),
            (''barcodes'', PDict [])]),
        (''samples'', PDict [])]"

definition doc_with_samples :: pyval where
  "doc_with_samples =
     PDict
       [(''assembly'', PDict
           [(''_version'', PStr ''0.2.0''),
            (''name'', PStr ''proj''),
            (''dirs'', PDict [(''project'', PStr ''/data'')]),
            (''paramsdict'', PDict [(''assembly_name'', PStr ''proj''),
                                    (''project_dir'', PStr ''/data''),
                                    (''max_low_qual_bases'', PNum 5)]),
            (''samples'', PList [PStr ''s1'', PStr ''s2'']),
            (''populations'', PDict []),
            (''database'', PStr []),
            (''outfiles'', PDict []),
            (''barcodes'', PDict [])]),
        (''samples'', PDict [(''s1'', to_fulldict0 sample0), (''s2'', to_fulldict0 sample0)])]"

definition doc_assembly_is_string :: pyval where
  "doc_assembly_is_string = PDict [(''assembly'', PStr ''proj'')]"

definition json_loads0 :: "string \<Rightarrow> pyval option" where
  "json_loads0 text =
     (if text = ''<project without samples>'' then Some doc_without_samples
      else if text = ''<project with two samples>'' then Some doc_with_samples
      else if text = ''<assembly is a string>'' then Some doc_assembly_is_string
      else None)"

text \<open>
  \<open>os.path.splitext(p)[0]\<close> of Python 2.7 on POSIX: the path up to its last dot, when
  that dot comes after the last slash and after a character of the file name that is not
  a dot; the whole path otherwise.
\<close>

definition splitext_root0 :: "string \<Rightarrow> string" where
  "splitext_root0 p =
     (let r = rev p;
          ext = takeWhile (\<lambda>ch. ch \<noteq> CHR ''.'' \<and> ch \<noteq> CHR ''/'') r
      in case drop (length ext) r of
           [] \<Rightarrow> p
         | ch # before \<Rightarrow>
             if ch = CHR ''.'' \<and> list_ex (\<lambda>x. x \<noteq> CHR ''.'') (takeWhile (\<lambda>x. x \<noteq> CHR ''/'') before)
             then rev before
             else p)"

definition collaborators0 :: collaborators where
  "collaborators0 =
     \<lparr> json_loads = json_loads0,
       shortpath = (\<lambda>p. p),
       splitext_root = splitext_root0,
       set_params = (\<lambda>param val a. Inr (a\<lparr>paramsdict := AList.update param val (paramsdict a)\<rparr>)),
       build_stat = (\<lambda>statskey a. None) \<rparr>"

definition sample_schema0 :: sample_schema where
  "sample_schema0 =
     \<lparr> smp_stats = [(''state'', PNum 0)],
       smp_statsfiles = [(''s1'', [(''reads_raw'', PNone)])],
       smp_attrs = [(''name'', PStr []), (''files'', PDict [])] \<rparr>"

definition project_without_samples :: assembly where
  "project_without_samples = project0\<lparr>samples := []\<rparr>"

definition text_world :: world where
  "text_world =
     \<lparr> snapshots = nothing_present,
       textfiles = (\<lambda>p. if p = ''/data/proj.json'' then Some ''<project without samples>''
                        else if p = ''odd'' then Some ''<assembly is a string>''
                        else None),
       saved = [], out = [] \<rparr>"

definition text_world_samples :: world where
  "text_world_samples =
     \<lparr> snapshots = nothing_present,
       textfiles = (\<lambda>p. if p = ''/data/proj.json'' then Some ''<project with two samples>''
                        else None),
       saved = [], out = [] \<rparr>"

section \<open>Properties\<close>

subsection \<open>Reference objects, key sets and the carry-over loop\<close>

lemma Assembly_simps:
  "name (Assembly sch nm) = nm"
  "dict_keys (paramsdict (Assembly sch nm)) = dict_keys (sch_params sch)"
  "hackersonly (Assembly sch nm) = sch_hackersonly sch"
  "samples (Assembly sch nm) = []"
  "attrs (Assembly sch nm) = sch_attrs sch"
  by (simp_all add: Assembly_def dict_keys_def split_def comp_def)

lemma test_assembly_eq:
  "test_assembly sch data =
     (set (dict_keys (sch_params sch)) - set (dict_keys (paramsdict data)) \<noteq> {}
      \<or> set (dict_keys (sch_hackersonly sch)) - set (dict_keys (hackersonly data)) \<noteq> {})"
  by (simp add: test_assembly_def Let_def Assembly_simps)

lemma dict_keys_update_notin:
  "set (dict_keys (AList.update k v d)) = insert k (set (dict_keys d))"
  by (auto simp: dict_keys_def update_keys)

lemma carry_over_keys:
  "\<forall>i \<in> set ks. i \<notin> removed \<longrightarrow> i \<in> set (dict_keys new) \<Longrightarrow>
   dict_keys (carry_over ks removed old new) = dict_keys new"
proof (induction ks arbitrary: new)
  case Nil
  then show ?case by simp
next
  case (Cons i rest)
  let ?new' = "if i \<notin> removed
        then (case map_of old i of Some v \<Rightarrow> AList.update i v new | None \<Rightarrow> new)
        else new"
  have k: "dict_keys ?new' = dict_keys new"
    using Cons.prems by (auto simp: dict_keys_def update_keys split: option.splits)
  have "dict_keys (carry_over rest removed old ?new') = dict_keys ?new'"
    by (rule Cons.IH) (use Cons.prems k in auto)
  with k show ?case by simp
qed

lemma carry_over_map_of:
  "map_of (carry_over ks removed old new) k =
     (if k \<in> set ks \<and> k \<notin> removed \<and> map_of old k \<noteq> None then map_of old k else map_of new k)"
proof (induction ks arbitrary: new)
  case Nil
  then show ?case by simp
next
  case (Cons i rest)
  show ?case
    by (simp add: Cons.IH update_conv' split: option.splits) auto
qed

lemma map_of_None_iff_keys: "map_of d k = None \<longleftrightarrow> k \<notin> set (dict_keys d)"
  by (simp add: dict_keys_def map_of_eq_None_iff)

lemma update_assembly_fst:
  "fst (update_assembly sch data w) =
     (let ref = paramsdict (Assembly sch ''update'');
          removed = set (dict_keys (paramsdict data)) - set (dict_keys ref);
          added = set (dict_keys ref) - set (dict_keys (paramsdict data))
      in if added \<noteq> {}
         then data\<lparr>hackersonly := sch_hackersonly sch,
                   paramsdict := carry_over (dict_keys (paramsdict data)) removed (paramsdict data) ref\<rparr>
         else data\<lparr>hackersonly := sch_hackersonly sch\<rparr>)"
  by (simp add: update_assembly_def Let_def Assembly_simps)

lemma schema0_keys:
  "dict_keys (sch_params schema0) = [''assembly_name'', ''project_dir'', ''max_low_qual_bases'']"
  "dict_keys (sch_hackersonly schema0) = [''random_seed'']"
  by (simp_all add: schema0_def dict_keys_def)

lemma schema0_reference:
  "paramsdict (Assembly schema0 nm) =
     [(''assembly_name'', PStr nm), (''project_dir'', PStr ''./''),
      (''max_low_qual_bases'', PNum 5)]"
  "dict_keys (paramsdict (Assembly schema0 nm)) =
     [''assembly_name'', ''project_dir'', ''max_low_qual_bases'']"
  "dict_keys (hackersonly (Assembly schema0 nm)) = [''random_seed'']"
  by (simp_all add: Assembly_def schema0_def dict_keys_def)

lemma old_missing_keys:
  "dict_keys (paramsdict old_missing) = [''assembly_name'', ''project_dir'', ''excludes'']"
  "dict_keys (hackersonly old_missing) = [''random_seed'']"
  "name old_missing = ''proj''"
  by (simp_all add: old_missing_def dict_keys_def)

lemma old_extra_keys:
  "dict_keys (paramsdict old_extra) =
     [''assembly_name'', ''project_dir'', ''max_low_qual_bases'', ''excludes'']"
  "dict_keys (hackersonly old_extra) = [''random_seed'']"
  "name old_extra = ''proj''"
  by (simp_all add: old_extra_def dict_keys_def)

subsection \<open>The drift check\<close>

text \<open>
  C3. \<open>test_assembly\<close> returns true exactly when a parameter key of the reference object
  is missing from the loaded object or a \<open>_hackersonly\<close> key of the reference object is
  missing from the loaded object. A key that the reference object does not have, added to
  either mapping of the loaded object, does not change the result.
\<close>

theorem test_assembly_iff:
  "(test_assembly sch data \<longleftrightarrow>
      set (dict_keys (paramsdict (Assembly sch (name data)))) - set (dict_keys (paramsdict data)) \<noteq> {}
      \<or> set (dict_keys (hackersonly (Assembly sch (name data)))) - set (dict_keys (hackersonly data)) \<noteq> {})
   \<and> (\<forall>k v. k \<notin> set (dict_keys (paramsdict (Assembly sch (name data)))) \<longrightarrow>
         test_assembly sch (data\<lparr>paramsdict := AList.update k v (paramsdict data)\<rparr>)
           = test_assembly sch data)
   \<and> (\<forall>k v. k \<notin> set (dict_keys (hackersonly (Assembly sch (name data)))) \<longrightarrow>
         test_assembly sch (data\<lparr>hackersonly := AList.update k v (hackersonly data)\<rparr>)
           = test_assembly sch data)"
proof (intro conjI allI impI)
  show "test_assembly sch data \<longleftrightarrow>
      set (dict_keys (paramsdict (Assembly sch (name data)))) - set (dict_keys (paramsdict data)) \<noteq> {}
      \<or> set (dict_keys (hackersonly (Assembly sch (name data)))) - set (dict_keys (hackersonly data)) \<noteq> {}"
    by (simp add: test_assembly_eq Assembly_simps)
next
  fix k v
  assume "k \<notin> set (dict_keys (paramsdict (Assembly sch (name data))))"
  then have "k \<notin> set (dict_keys (sch_params sch))"
    by (simp add: Assembly_simps)
  then have "set (dict_keys (sch_params sch)) - insert k (set (dict_keys (paramsdict data)))
               = set (dict_keys (sch_params sch)) - set (dict_keys (paramsdict data))"
    by blast
  then show "test_assembly sch (data\<lparr>paramsdict := AList.update k v (paramsdict data)\<rparr>)
           = test_assembly sch data"
    by (simp add: test_assembly_eq dict_keys_update_notin)
next
  fix k v
  assume "k \<notin> set (dict_keys (hackersonly (Assembly sch (name data))))"
  then have "k \<notin> set (dict_keys (sch_hackersonly sch))"
    by (simp add: Assembly_simps)
  then have "set (dict_keys (sch_hackersonly sch)) - insert k (set (dict_keys (hackersonly data)))
               = set (dict_keys (sch_hackersonly sch)) - set (dict_keys (hackersonly data))"
    by blast
  then show "test_assembly sch (data\<lparr>hackersonly := AList.update k v (hackersonly data)\<rparr>)
           = test_assembly sch data"
    by (simp add: test_assembly_eq dict_keys_update_notin)
qed

theorem test_assembly_iff_witness:
  "test_assembly schema0 old_missing
   \<and> \<not> test_assembly schema0 old_extra
   \<and> test_assembly schema0 (old_missing\<lparr>paramsdict := AList.update ''zzz'' PNone (paramsdict old_missing)\<rparr>)
       = test_assembly schema0 old_missing"
proof -
  have a: "test_assembly schema0 old_missing"
    unfolding test_assembly_iff [of schema0 old_missing, THEN conjunct1]
    by (simp add: schema0_reference(2,3) old_missing_keys)
  have b: "\<not> test_assembly schema0 old_extra"
    unfolding test_assembly_iff [of schema0 old_extra, THEN conjunct1]
    by (simp add: schema0_reference(2,3) old_extra_keys)
  have z: "''zzz'' \<notin> set (dict_keys (paramsdict (Assembly schema0 (name old_missing))))"
    by (simp add: schema0_reference(2,3))
  have c: "test_assembly schema0 (old_missing\<lparr>paramsdict := AList.update ''zzz'' PNone (paramsdict old_missing)\<rparr>)
       = test_assembly schema0 old_missing"
    using test_assembly_iff [of schema0 old_missing, THEN conjunct2, THEN conjunct1] z
    by blast
  from a b c show ?thesis by blast
qed

subsection \<open>The migration\<close>

text \<open>
  C4. When the loaded object lacks at least one parameter key of the reference object,
  the mapping \<open>update_assembly\<close> returns has the reference object's keys, in the
  reference object's order; a key the loaded object lacked holds the reference default;
  a key both have holds the loaded object's value; a key only the loaded object had is
  absent.
\<close>

theorem update_assembly_rebuilds_paramsdict:
  assumes "set (dict_keys (paramsdict (Assembly sch ''update''))) - set (dict_keys (paramsdict data)) \<noteq> {}"
  shows "dict_keys (paramsdict (fst (update_assembly sch data w)))
           = dict_keys (paramsdict (Assembly sch ''update''))
      \<and> (\<forall>k. k \<in> set (dict_keys (paramsdict (Assembly sch ''update'')))
                \<and> k \<notin> set (dict_keys (paramsdict data)) \<longrightarrow>
             map_of (paramsdict (fst (update_assembly sch data w))) k
               = map_of (paramsdict (Assembly sch ''update'')) k)
      \<and> (\<forall>k. k \<in> set (dict_keys (paramsdict (Assembly sch ''update'')))
                \<and> k \<in> set (dict_keys (paramsdict data)) \<longrightarrow>
             map_of (paramsdict (fst (update_assembly sch data w))) k
               = map_of (paramsdict data) k)
      \<and> (\<forall>k. k \<in> set (dict_keys (paramsdict data))
                \<and> k \<notin> set (dict_keys (paramsdict (Assembly sch ''update''))) \<longrightarrow>
             k \<notin> set (dict_keys (paramsdict (fst (update_assembly sch data w))))
             \<and> map_of (paramsdict (fst (update_assembly sch data w))) k = None)"
proof -
  let ?ref = "paramsdict (Assembly sch ''update'')"
  let ?old = "paramsdict data"
  let ?removed = "set (dict_keys ?old) - set (dict_keys ?ref)"
  let ?new = "carry_over (dict_keys ?old) ?removed ?old ?ref"
  have new: "paramsdict (fst (update_assembly sch data w)) = ?new"
    using assms by (simp add: update_assembly_fst Let_def)
  have keys: "dict_keys ?new = dict_keys ?ref"
    by (rule carry_over_keys) auto
  have val: "map_of ?new k =
     (if k \<in> set (dict_keys ?old) \<and> k \<notin> ?removed \<and> map_of ?old k \<noteq> None
      then map_of ?old k else map_of ?ref k)" for k
    by (rule carry_over_map_of)
  have added: "map_of ?new k = map_of ?ref k"
    if "k \<in> set (dict_keys ?ref) \<and> k \<notin> set (dict_keys ?old)" for k
    using that by (simp add: val)
  have kept: "map_of ?new k = map_of ?old k"
    if "k \<in> set (dict_keys ?ref) \<and> k \<in> set (dict_keys ?old)" for k
    using that by (simp add: val map_of_None_iff_keys)
  have gone: "k \<notin> set (dict_keys ?new) \<and> map_of ?new k = None"
    if "k \<in> set (dict_keys ?old) \<and> k \<notin> set (dict_keys ?ref)" for k
    using that keys by (simp add: map_of_None_iff_keys)
  show ?thesis
    unfolding new using keys added kept gone by blast
qed

theorem update_assembly_rebuilds_paramsdict_witness:
  "dict_keys (paramsdict (fst (update_assembly schema0 old_missing (world0 missing_key))))
     = [''assembly_name'', ''project_dir'', ''max_low_qual_bases'']
   \<and> map_of (paramsdict (fst (update_assembly schema0 old_missing (world0 missing_key))))
        ''max_low_qual_bases'' = Some (PNum 5)
   \<and> map_of (paramsdict (fst (update_assembly schema0 old_missing (world0 missing_key))))
        ''project_dir'' = Some (PStr ''/data'')
   \<and> ''excludes'' \<notin> set (dict_keys
        (paramsdict (fst (update_assembly schema0 old_missing (world0 missing_key)))))"
proof -
  let ?new = "paramsdict (fst (update_assembly schema0 old_missing (world0 missing_key)))"
  have pre: "set (dict_keys (paramsdict (Assembly schema0 ''update'')))
               - set (dict_keys (paramsdict old_missing)) \<noteq> {}"
    by (simp add: schema0_reference(2,3) old_missing_keys)
  note r = update_assembly_rebuilds_paramsdict [OF pre, of "world0 missing_key"]
  have k: "dict_keys ?new = [''assembly_name'', ''project_dir'', ''max_low_qual_bases'']"
    using r [THEN conjunct1] by (simp add: schema0_reference(2,3))
  have "map_of ?new ''max_low_qual_bases''
          = map_of (paramsdict (Assembly schema0 ''update'')) ''max_low_qual_bases''"
    using r [THEN conjunct2, THEN conjunct1]
    by (simp add: schema0_reference(2) old_missing_keys)
  then have v1: "map_of ?new ''max_low_qual_bases'' = Some (PNum 5)"
    by (simp add: schema0_reference(1))
  have "map_of ?new ''project_dir'' = map_of (paramsdict old_missing) ''project_dir''"
    using r [THEN conjunct2, THEN conjunct2, THEN conjunct1]
    by (simp add: schema0_reference(2) old_missing_keys)
  then have v2: "map_of ?new ''project_dir'' = Some (PStr ''/data'')"
    by (simp add: old_missing_def)
  have v3: "''excludes'' \<notin> set (dict_keys ?new)"
    by (simp add: k)
  from k v1 v2 v3 show ?thesis by blast
qed

text \<open>
  C10. The drift check reports nothing on the object \<open>update_assembly\<close> returns.
\<close>

theorem update_assembly_fixpoint:
  "\<not> test_assembly sch (fst (update_assembly sch data w))"
proof -
  let ?ref = "paramsdict (Assembly sch ''update'')"
  let ?old = "paramsdict data"
  let ?removed = "set (dict_keys ?old) - set (dict_keys ?ref)"
  let ?new = "carry_over (dict_keys ?old) ?removed ?old ?ref"
  have keys: "dict_keys ?new = dict_keys (sch_params sch)"
    using carry_over_keys [of "dict_keys ?old" ?removed ?ref ?old]
    by (auto simp: Assembly_simps)
  show ?thesis
  proof (cases "set (dict_keys ?ref) - set (dict_keys ?old) = {}")
    case True
    then show ?thesis
      by (simp add: test_assembly_eq update_assembly_fst Let_def Assembly_simps)
  next
    case False
    then have "fst (update_assembly sch data w) =
        data\<lparr>hackersonly := sch_hackersonly sch, paramsdict := ?new\<rparr>"
      by (simp add: update_assembly_fst Let_def)
    then show ?thesis
      by (simp add: test_assembly_eq keys)
  qed
qed

theorem update_assembly_fixpoint_witness:
  "\<not> test_assembly schema0 (fst (update_assembly schema0 old_missing (world0 missing_key)))
   \<and> test_assembly schema0 old_missing"
proof -
  have "test_assembly schema0 old_missing"
    by (simp add: test_assembly_eq schema0_keys old_missing_keys)
  with update_assembly_fixpoint [of schema0 old_missing "world0 missing_key"]
  show ?thesis by blast
qed

subsection \<open>The snapshot loader\<close>

lemma update_assembly_fst_indep:
  "fst (update_assembly sch data w) = fst (update_assembly sch data w')"
  by (simp add: update_assembly_fst)

lemma update_assembly_snapshots:
  "snapshots (snd (update_assembly sch data w)) = snapshots w"
  by (simp add: update_assembly_def Let_def print_def save_def)

lemma try_candidate_NoFile:
  "snapshots w nm = NoFile \<Longrightarrow> try_candidate sch sh q nm (w, d) = Inr (w, d)"
  by (simp add: try_candidate_def)

lemma try_candidate_Snapshot:
  assumes "snapshots w nm = Snapshot a"
  shows "\<exists>w'. try_candidate sch sh q nm (w, d) =
            Inr (w', Some (if test_assembly sch a then fst (update_assembly sch a w0) else a))
          \<and> snapshots w' = snapshots w"
proof (cases "test_assembly sch a")
  case False
  with assms show ?thesis
    by (simp add: try_candidate_def Let_def print_def)
next
  case True
  let ?w1 = "if \<not> q then print [LoadingAssembly (name a) (sh nm)] w else w"
  let ?w2 = "print [Line ''  Attempting to update assembly to newest version.''] ?w1"
  have s: "snapshots ?w2 = snapshots w"
    by (simp add: print_def)
  have "try_candidate sch sh q nm (w, d) =
          Inr (snd (update_assembly sch a ?w2), Some (fst (update_assembly sch a ?w2)))"
    using assms True by (simp add: try_candidate_def Let_def split_def)
  moreover have "fst (update_assembly sch a ?w2) = fst (update_assembly sch a w0)"
    by (rule update_assembly_fst_indep)
  moreover have "snapshots (snd (update_assembly sch a ?w2)) = snapshots w"
    using s by (simp add: update_assembly_snapshots)
  ultimately show ?thesis using True by simp
qed

lemma try_candidate_Inr:
  assumes "try_candidate sch sh q nm (w, d) = Inr (w', d')"
  shows "snapshots w' = snapshots w
       \<and> ((d' = d \<and> (\<forall>a. snapshots w nm \<noteq> Snapshot a))
          \<or> (\<exists>a. snapshots w nm = Snapshot a
                \<and> d' = Some (if test_assembly sch a then fst (update_assembly sch a w0) else a)))"
proof (cases "snapshots w nm")
  case NoFile
  with assms show ?thesis by (simp add: try_candidate_def)
next
  case (Unloadable e)
  with assms show ?thesis by (simp add: try_candidate_def split: if_splits)
next
  case (Snapshot a)
  from try_candidate_Snapshot [OF Snapshot, of sch sh q d w0] assms Snapshot
  show ?thesis by auto
qed

lemma load_assembly_unfold:
  "load_assembly sch sh nm q w =
     (case try_candidate sch sh q nm (w, None) of
        Inl e \<Rightarrow> Inl e
      | Inr st \<Rightarrow>
          (case try_candidate sch sh q (nm @ ''.assembly'') st of
             Inl e \<Rightarrow> Inl e
           | Inr (w', None) \<Rightarrow> Inl (AssertionError (not_found_message nm))
           | Inr (w', Some data) \<Rightarrow> Inr (data, w')))"
  by (simp add: load_assembly_def Let_def split: sum.splits)

lemma migrated_keys:
  assumes "set (dict_keys (sch_params sch)) - set (dict_keys (paramsdict d)) \<noteq> {}"
  shows "dict_keys (paramsdict (fst (update_assembly sch d w))) = dict_keys (sch_params sch)"
proof -
  let ?ref = "paramsdict (Assembly sch ''update'')"
  let ?old = "paramsdict d"
  let ?removed = "set (dict_keys ?old) - set (dict_keys ?ref)"
  have "dict_keys (carry_over (dict_keys ?old) ?removed ?old ?ref) = dict_keys ?ref"
    by (rule carry_over_keys) auto
  with assms show ?thesis
    by (simp add: update_assembly_fst Let_def Assembly_simps)
qed

lemma both_present_files:
  "snapshots (world0 both_present) ''proj'' = Snapshot old_extra"
  "snapshots (world0 both_present) (''proj'' @ ''.assembly'') = Snapshot second_object"
  by (simp_all add: world0_def both_present_def)

lemma second_object_keys:
  "dict_keys (paramsdict second_object) =
     [''assembly_name'', ''project_dir'', ''max_low_qual_bases'', ''excludes'']"
  "dict_keys (hackersonly second_object) = [''random_seed'']"
  by (simp_all add: second_object_def old_extra_def dict_keys_def)

lemma no_drift:
  "\<not> test_assembly schema0 old_extra" "\<not> test_assembly schema0 second_object"
  by (simp_all add: test_assembly_eq schema0_keys old_extra_keys second_object_keys)

lemma missing_key_files:
  "snapshots (world0 missing_key) ''proj'' = NoFile"
  "snapshots (world0 missing_key) (''proj'' @ ''.assembly'') = Snapshot old_missing"
  by (simp_all add: world0_def missing_key_def)

lemma only_extended_files:
  "snapshots (world0 only_extended) ''proj'' = NoFile"
  "snapshots (world0 only_extended) (''proj'' @ ''.assembly'') = Snapshot old_extra"
  by (simp_all add: world0_def only_extended_def)

lemma removing_notices_quiet: "filter is_announcement (removing_notices R d) = []"
  by (auto simp: removing_notices_def is_announcement_def filter_empty_conv split: option.splits)

lemma adding_notices_quiet: "filter is_announcement (adding_notices R d) = []"
  by (auto simp: adding_notices_def is_announcement_def filter_empty_conv split: option.splits)

lemma update_assembly_world:
  "\<exists>new. out (snd (update_assembly sch data w)) = out w @ new
        \<and> filter is_announcement new = []
        \<and> saved (snd (update_assembly sch data w)) = saved w @ [fst (update_assembly sch data w)]
        \<and> snapshots (snd (update_assembly sch data w)) = snapshots w"
proof -
  let ?ref = "Assembly sch ''update''"
  let ?d = "data\<lparr>hackersonly := hackersonly ?ref\<rparr>"
  let ?removed = "set (dict_keys (paramsdict ?d)) - set (dict_keys (paramsdict ?ref))"
  let ?added = "set (dict_keys (paramsdict ?ref)) - set (dict_keys (paramsdict ?d))"
  let ?new = "[Line banner, Line ''Updating assembly to current version'']
              @ removing_notices ?removed (paramsdict ?d)
              @ adding_notices ?added (paramsdict ?ref)
              @ [Line please_note, Line banner]"
  have o: "out (snd (update_assembly sch data w)) = out w @ ?new"
    by (simp add: update_assembly_def Let_def print_def save_def)
  have q: "filter is_announcement ?new = []"
    by (simp add: removing_notices_quiet adding_notices_quiet is_announcement_def)
  have s: "saved (snd (update_assembly sch data w)) = saved w @ [fst (update_assembly sch data w)]"
    by (simp add: update_assembly_def Let_def print_def save_def)
  have f: "snapshots (snd (update_assembly sch data w)) = snapshots w"
    by (simp add: update_assembly_def Let_def print_def save_def)
  from o q s f show ?thesis by blast
qed

lemma try_candidate_Snapshot_world:
  assumes "snapshots w nm = Snapshot a"
  shows "\<exists>w' new. try_candidate sch sh q nm (w, d) =
            Inr (w', Some (if test_assembly sch a then fst (update_assembly sch a w0) else a))
          \<and> snapshots w' = snapshots w
          \<and> saved w' = saved w @ (if test_assembly sch a then [fst (update_assembly sch a w0)] else [])
          \<and> out w' = out w @ new
          \<and> filter is_announcement new = (if q then [] else [LoadingAssembly (name a) (sh nm)])"
proof (cases "test_assembly sch a")
  case False
  with assms show ?thesis
    by (cases q) (simp_all add: try_candidate_def Let_def print_def is_announcement_def)
next
  case True
  let ?ann = "if \<not> q then [LoadingAssembly (name a) (sh nm)] else []"
  let ?w1 = "if \<not> q then print [LoadingAssembly (name a) (sh nm)] w else w"
  let ?w2 = "print [Line ''  Attempting to update assembly to newest version.''] ?w1"
  have w2: "snapshots ?w2 = snapshots w" "saved ?w2 = saved w"
      "out ?w2 = out w @ ?ann @ [Line ''  Attempting to update assembly to newest version.'']"
    by (simp_all add: print_def)
  from update_assembly_world [of sch a ?w2] obtain new where new:
    "out (snd (update_assembly sch a ?w2)) = out ?w2 @ new"
    "filter is_announcement new = []"
    "saved (snd (update_assembly sch a ?w2)) = saved ?w2 @ [fst (update_assembly sch a ?w2)]"
    "snapshots (snd (update_assembly sch a ?w2)) = snapshots ?w2"
    by blast
  have run: "try_candidate sch sh q nm (w, d) =
          Inr (snd (update_assembly sch a ?w2), Some (fst (update_assembly sch a ?w2)))"
    using assms True by (simp add: try_candidate_def Let_def split_def)
  have indep: "fst (update_assembly sch a ?w2) = fst (update_assembly sch a w0)"
    by (rule update_assembly_fst_indep)
  let ?new = "?ann @ [Line ''  Attempting to update assembly to newest version.''] @ new"
  have o: "out (snd (update_assembly sch a ?w2)) = out w @ ?new"
    using new(1) w2(3) by simp
  have f: "filter is_announcement ?new = (if q then [] else [LoadingAssembly (name a) (sh nm)])"
    using new(2) by (simp add: is_announcement_def)
  have s: "saved (snd (update_assembly sch a ?w2)) = saved w @ [fst (update_assembly sch a w0)]"
    using new(3) w2(2) indep by simp
  have sn: "snapshots (snd (update_assembly sch a ?w2)) = snapshots w"
    using new(4) w2(1) by simp
  from run indep o f s sn True show ?thesis
    by (intro exI [of _ "snd (update_assembly sch a ?w2)"] exI [of _ ?new]) simp
qed

lemma first_drifted_files:
  "snapshots (world0 first_drifted) ''proj'' = Snapshot old_missing"
  "snapshots (world0 first_drifted) (''proj'' @ ''.assembly'') = Snapshot second_object"
  by (simp_all add: world0_def first_drifted_def)

lemma drift_old_missing: "test_assembly schema0 old_missing"
  by (simp add: test_assembly_eq schema0_keys old_missing_keys)

text \<open>
  C7. When \<open>open\<close> fails on both candidates, \<open>load_assembly\<close> raises one AssertionError
  whose message ends with the name it was called with, not with a candidate path.
\<close>

theorem load_assembly_not_found:
  assumes "snapshots w assemblyname = NoFile"
      and "snapshots w (assemblyname @ ''.assembly'') = NoFile"
  shows "load_assembly sch shorten assemblyname quiet w =
           Inl (AssertionError (''Attempting to load assembly. File not found: '' @ assemblyname))"
  using assms
  by (simp add: load_assembly_unfold try_candidate_NoFile not_found_message_def)

theorem load_assembly_not_found_witness:
  "load_assembly schema0 id ''missing_project'' False (world0 nothing_present) =
     Inl (AssertionError ''Attempting to load assembly. File not found: missing_project'')"
proof -
  have "snapshots (world0 nothing_present) ''missing_project'' = NoFile"
       "snapshots (world0 nothing_present) (''missing_project'' @ ''.assembly'') = NoFile"
    by (simp_all add: world0_def nothing_present_def)
  from load_assembly_not_found [OF this, of schema0 id False]
  show ?thesis by simp
qed

text \<open>
  C2, as the code has it. The loop has no \<open>break\<close>: every candidate is tried, and each one
  that loads rebinds \<open>data\<close>. When both the literal name and the name with \<open>.assembly\<close>
  load, the object returned is the one deserialized from the second candidate, migrated
  when the drift check asks for it. The first candidate's object is loaded all the same:
  unless \<open>quiet\<close> is set, both are announced, the first before the second, and each one
  the drift check flags is migrated and saved, the first before the second.
\<close>

theorem load_assembly_last_candidate:
  assumes "snapshots w assemblyname = Snapshot first"
      and "snapshots w (assemblyname @ ''.assembly'') = Snapshot second"
  shows "\<exists>w' new. load_assembly sch shorten assemblyname quiet w =
           Inr (if test_assembly sch second then fst (update_assembly sch second w) else second, w')
         \<and> saved w' = saved w
              @ (if test_assembly sch first then [fst (update_assembly sch first w)] else [])
              @ (if test_assembly sch second then [fst (update_assembly sch second w)] else [])
         \<and> out w' = out w @ new
         \<and> filter is_announcement new =
              (if quiet then []
               else [LoadingAssembly (name first) (shorten assemblyname),
                     LoadingAssembly (name second) (shorten (assemblyname @ ''.assembly''))])"
proof -
  let ?m1 = "if test_assembly sch first then fst (update_assembly sch first w) else first"
  let ?m2 = "if test_assembly sch second then fst (update_assembly sch second w) else second"
  from try_candidate_Snapshot_world [OF assms(1), of sch shorten quiet None w]
  obtain w1 new1 where 1:
    "try_candidate sch shorten quiet assemblyname (w, None) = Inr (w1, Some ?m1)"
    "snapshots w1 = snapshots w"
    "saved w1 = saved w @ (if test_assembly sch first then [fst (update_assembly sch first w)] else [])"
    "out w1 = out w @ new1"
    "filter is_announcement new1
       = (if quiet then [] else [LoadingAssembly (name first) (shorten assemblyname)])"
    by blast
  from assms(2) 1(2) have "snapshots w1 (assemblyname @ ''.assembly'') = Snapshot second"
    by simp
  from try_candidate_Snapshot_world [OF this, of sch shorten quiet "Some ?m1" w]
  obtain w2 new2 where 2:
    "try_candidate sch shorten quiet (assemblyname @ ''.assembly'') (w1, Some ?m1)
       = Inr (w2, Some ?m2)"
    "saved w2 = saved w1 @ (if test_assembly sch second then [fst (update_assembly sch second w)] else [])"
    "out w2 = out w1 @ new2"
    "filter is_announcement new2
       = (if quiet then []
          else [LoadingAssembly (name second) (shorten (assemblyname @ ''.assembly''))])"
    by blast
  have l: "load_assembly sch shorten assemblyname quiet w = Inr (?m2, w2)"
    by (simp only: load_assembly_unfold 1(1) 2(1) sum.case prod.case option.case)
  have s: "saved w2 = saved w
              @ (if test_assembly sch first then [fst (update_assembly sch first w)] else [])
              @ (if test_assembly sch second then [fst (update_assembly sch second w)] else [])"
    using 1(3) 2(2) by simp
  have o: "out w2 = out w @ (new1 @ new2)"
    using 1(4) 2(3) by simp
  have f: "filter is_announcement (new1 @ new2) =
              (if quiet then []
               else [LoadingAssembly (name first) (shorten assemblyname),
                     LoadingAssembly (name second) (shorten (assemblyname @ ''.assembly''))])"
    using 1(5) 2(4) by simp
  from l s o f show ?thesis by blast
qed

theorem load_assembly_last_candidate_witness:
  "\<exists>w' new. load_assembly schema0 id ''proj'' False (world0 first_drifted) = Inr (second_object, w')
     \<and> saved w' = [fst (update_assembly schema0 old_missing (world0 first_drifted))]
     \<and> out w' = new
     \<and> filter is_announcement new
          = [LoadingAssembly ''proj'' ''proj'', LoadingAssembly ''second'' ''proj.assembly'']"
proof -
  have n: "name old_missing = ''proj''" "name second_object = ''second''"
    by (simp_all add: old_missing_def second_object_def)
  have w: "saved (world0 first_drifted) = []" "out (world0 first_drifted) = []"
    by (simp_all add: world0_def)
  from load_assembly_last_candidate [OF first_drifted_files, of schema0 id False]
  show ?thesis
    by (simp add: no_drift drift_old_missing n w)
qed

text \<open>
  C2 as stated fails: with both files present and quiet off, both are loaded and announced,
  and the object of the second file, not of the first, is returned.
\<close>

theorem load_assembly_first_candidate_counterexample:
  "snapshots (world0 both_present) ''proj'' = Snapshot old_extra
   \<and> snapshots (world0 both_present) ''proj.assembly'' = Snapshot second_object
   \<and> load_assembly schema0 id ''proj'' False (world0 both_present) =
       Inr (second_object,
            (world0 both_present)\<lparr>out := [LoadingAssembly ''proj'' ''proj'',
                                           LoadingAssembly ''second'' ''proj.assembly'']\<rparr>)
   \<and> second_object \<noteq> old_extra"
proof -
  have n: "name old_extra = ''proj''" "name second_object = ''second''"
    by (simp_all add: old_extra_def second_object_def)
  have 1: "try_candidate schema0 id False ''proj'' (world0 both_present, None) =
      Inr ((world0 both_present)\<lparr>out := [LoadingAssembly ''proj'' ''proj'']\<rparr>, Some old_extra)"
    by (simp add: try_candidate_def world0_def both_present_def no_drift print_def n)
  have 2: "try_candidate schema0 id False (''proj'' @ ''.assembly'')
      ((world0 both_present)\<lparr>out := [LoadingAssembly ''proj'' ''proj'']\<rparr>, Some old_extra) =
      Inr ((world0 both_present)\<lparr>out := [LoadingAssembly ''proj'' ''proj'',
                                           LoadingAssembly ''second'' ''proj.assembly'']\<rparr>,
           Some second_object)"
    by (simp add: try_candidate_def world0_def both_present_def no_drift print_def n)
  have 3: "load_assembly schema0 id ''proj'' False (world0 both_present) =
       Inr (second_object,
            (world0 both_present)\<lparr>out := [LoadingAssembly ''proj'' ''proj'',
                                           LoadingAssembly ''second'' ''proj.assembly'']\<rparr>)"
    by (simp only: load_assembly_unfold 1 2 sum.case prod.case option.case)
  have 4: "second_object \<noteq> old_extra"
  proof
    assume "second_object = old_extra"
    then have "name second_object = name old_extra" by simp
    then show False by (simp add: n)
  qed
  from both_present_files 3 4 show ?thesis by simp
qed

text \<open>
  C1, as the code has it. The object a successful load returns comes from one of the two
  candidates: it is that stored object, passed through \<open>update_assembly\<close> when the drift
  check flags it. When the stored object lacked at least one parameter key of the current
  schema, the returned mapping has exactly the current key set. When the drift check
  reports nothing on the stored object, it is returned as stored, its extra keys included.
\<close>

theorem load_assembly_paramsdict_keys:
  assumes "load_assembly sch shorten assemblyname quiet w = Inr (a, w')"
  shows "\<exists>d. (snapshots w assemblyname = Snapshot d
              \<or> snapshots w (assemblyname @ ''.assembly'') = Snapshot d)
            \<and> a = (if test_assembly sch d then fst (update_assembly sch d w) else d)
            \<and> (set (dict_keys (sch_params sch)) - set (dict_keys (paramsdict d)) \<noteq> {} \<longrightarrow>
                 set (dict_keys (paramsdict a)) = set (dict_keys (sch_params sch)))
            \<and> (\<not> test_assembly sch d \<longrightarrow> a = d)"
proof -
  let ?m = "\<lambda>d. if test_assembly sch d then fst (update_assembly sch d w) else d"
  have good: "(set (dict_keys (sch_params sch)) - set (dict_keys (paramsdict d)) \<noteq> {} \<longrightarrow>
                 set (dict_keys (paramsdict (?m d))) = set (dict_keys (sch_params sch)))
            \<and> (\<not> test_assembly sch d \<longrightarrow> ?m d = d)" for d
    by (simp add: migrated_keys test_assembly_eq)
  from assms obtain w1 d1 where 1: "try_candidate sch shorten quiet assemblyname (w, None) = Inr (w1, d1)"
    by (auto simp: load_assembly_unfold split: sum.splits)
  with assms obtain w2 where 2:
    "try_candidate sch shorten quiet (assemblyname @ ''.assembly'') (w1, d1) = Inr (w2, Some a)"
    by (auto simp: load_assembly_unfold split: sum.splits option.splits)
  note c1 = try_candidate_Inr [OF 1, of w]
  note c2 = try_candidate_Inr [OF 2, of w]
  from c1 have s1: "snapshots w1 = snapshots w" by blast
  from c2 consider
      (second) d where "snapshots w1 (assemblyname @ ''.assembly'') = Snapshot d" "a = ?m d"
    | (kept) "Some a = d1"
    by auto
  then show ?thesis
  proof cases
    case (second d)
    with s1 good [of d] show ?thesis by auto
  next
    case kept
    with c1 obtain d where "snapshots w assemblyname = Snapshot d" "a = ?m d"
      by auto
    with good [of d] show ?thesis by auto
  qed
qed

theorem load_assembly_paramsdict_keys_witness:
  "\<exists>a w'. load_assembly schema0 id ''proj'' True (world0 missing_key) = Inr (a, w')
     \<and> a = fst (update_assembly schema0 old_missing (world0 missing_key))
     \<and> set (dict_keys (paramsdict a)) = {''assembly_name'', ''project_dir'', ''max_low_qual_bases''}"
proof -
  from try_candidate_Snapshot [OF missing_key_files(2), of schema0 id True None "world0 missing_key"]
  obtain w' a where 2: "try_candidate schema0 id True (''proj'' @ ''.assembly'')
      (world0 missing_key, None) = Inr (w', Some a)"
    by blast
  have 1: "try_candidate schema0 id True ''proj'' (world0 missing_key, None)
             = Inr (world0 missing_key, None)"
    by (rule try_candidate_NoFile) (rule missing_key_files(1))
  have l: "load_assembly schema0 id ''proj'' True (world0 missing_key) = Inr (a, w')"
    by (simp only: load_assembly_unfold 1 2 sum.case prod.case option.case)
  from load_assembly_paramsdict_keys [OF l] obtain d where d:
    "snapshots (world0 missing_key) ''proj'' = Snapshot d
       \<or> snapshots (world0 missing_key) (''proj'' @ ''.assembly'') = Snapshot d"
    "a = (if test_assembly schema0 d
          then fst (update_assembly schema0 d (world0 missing_key)) else d)"
    "set (dict_keys (sch_params schema0)) - set (dict_keys (paramsdict d)) \<noteq> {} \<longrightarrow>
       set (dict_keys (paramsdict a)) = set (dict_keys (sch_params schema0))"
    by blast
  have f2: "snapshots (world0 missing_key) ''proj.assembly'' = Snapshot old_missing"
    using missing_key_files(2) by simp
  from d(1) have dm: "d = old_missing"
    by (simp add: missing_key_files(1) f2)
  from d(2) dm have p: "a = (if test_assembly schema0 old_missing
                then fst (update_assembly schema0 old_missing (world0 missing_key))
                else old_missing)"
    by simp
  from d(3) dm have k: "set (dict_keys (paramsdict a)) = {''assembly_name'', ''project_dir'', ''max_low_qual_bases''}"
    by (simp add: schema0_keys old_missing_keys)
  from p have "a = fst (update_assembly schema0 old_missing (world0 missing_key))"
    by (simp add: drift_old_missing)
  with l k show ?thesis by blast
qed

text \<open>
  C1 as stated fails: a stored object that has every current parameter and one more
  (\<open>excludes\<close>) passes the drift check and is returned with the extra key.
\<close>

theorem load_assembly_keeps_extra_key_counterexample:
  "load_assembly schema0 id ''proj'' True (world0 only_extended) = Inr (old_extra, world0 only_extended)
   \<and> ''excludes'' \<in> set (dict_keys (paramsdict old_extra))
   \<and> ''excludes'' \<notin> set (dict_keys (paramsdict (Assembly schema0 ''proj'')))
   \<and> set (dict_keys (paramsdict old_extra)) \<noteq> set (dict_keys (paramsdict (Assembly schema0 ''proj'')))"
proof -
  have 1: "try_candidate schema0 id True ''proj'' (world0 only_extended, None)
             = Inr (world0 only_extended, None)"
    by (rule try_candidate_NoFile) (rule only_extended_files(1))
  have 2: "try_candidate schema0 id True (''proj'' @ ''.assembly'') (world0 only_extended, None)
             = Inr (world0 only_extended, Some old_extra)"
    using only_extended_files(2) by (simp add: try_candidate_def no_drift)
  have l: "load_assembly schema0 id ''proj'' True (world0 only_extended)
             = Inr (old_extra, world0 only_extended)"
    by (simp only: load_assembly_unfold 1 2 sum.case prod.case option.case)
  have k: "''excludes'' \<in> set (dict_keys (paramsdict old_extra))"
          "''excludes'' \<notin> set (dict_keys (paramsdict (Assembly schema0 ''proj'')))"
    by (simp_all add: old_extra_keys schema0_reference(2))
  then have "set (dict_keys (paramsdict old_extra)) \<noteq> set (dict_keys (paramsdict (Assembly schema0 ''proj'')))"
    by blast
  with l k show ?thesis by blast
qed

subsection \<open>The text codec: saving\<close>

lemma update_append:
  "k \<notin> set (dict_keys al) \<Longrightarrow> AList.update k v al = al @ [(k, v)]"
  by (induction al) (auto simp: dict_keys_def)

lemma sampledict_filled:
  assumes "distinct (dict_keys xs)"
      and "set (dict_keys xs) \<inter> set (dict_keys acc) = {}"
      and "\<forall>x \<in> set xs. snd x \<noteq> Placeholder"
  shows "\<exists>sd. sampledict f xs acc = Inr (acc @ sd)
            \<and> dict_keys sd = dict_keys xs
            \<and> (\<forall>k s. (k, SampleObj s) \<in> set xs \<longrightarrow> map_of sd k = Some (f s))"
  using assms
proof (induction xs arbitrary: acc)
  case Nil
  then show ?case by (simp add: dict_keys_def)
next
  case (Cons x xs)
  obtain k slot where x: "x = (k, slot)" by (cases x)
  with Cons.prems(3) obtain s where slot: "slot = SampleObj s"
    by (cases slot) auto
  from Cons.prems(2) x have knew: "k \<notin> set (dict_keys acc)"
    by (auto simp: dict_keys_def)
  let ?acc = "acc @ [(k, f s)]"
  have d: "distinct (dict_keys xs)" and kx: "k \<notin> set (dict_keys xs)"
    using Cons.prems(1) x by (simp_all add: dict_keys_def)
  have disj: "set (dict_keys xs) \<inter> set (dict_keys ?acc) = {}"
    using Cons.prems(2) kx by (auto simp: dict_keys_def)
  have fill: "\<forall>x \<in> set xs. snd x \<noteq> Placeholder"
    using Cons.prems(3) by simp
  from Cons.IH [OF d disj fill]
  obtain sd where sd: "sampledict f xs ?acc = Inr (?acc @ sd)"
      "dict_keys sd = dict_keys xs"
      "\<forall>k s. (k, SampleObj s) \<in> set xs \<longrightarrow> map_of sd k = Some (f s)"
    by blast
  have run: "sampledict f (x # xs) acc = Inr (acc @ ((k, f s) # sd))"
    using x slot sd(1) knew by (simp add: update_append)
  have keys: "dict_keys ((k, f s) # sd) = dict_keys (x # xs)"
    using sd(2) x by (simp add: dict_keys_def)
  have vals: "map_of ((k, f s) # sd) k' = Some (f s')"
    if "(k', SampleObj s') \<in> set (x # xs)" for k' s'
  proof (cases "k' = k")
    case True
    with that kx x slot have "s' = s"
      by (auto simp: dict_keys_def) (metis fst_conv image_eqI)
    with True show ?thesis by simp
  next
    case False
    with that x have "(k', SampleObj s') \<in> set xs" by auto
    with sd(3) False show ?thesis by simp
  qed
  from run keys vals show ?case by blast
qed

lemma datadict_present:
  assumes "\<forall>k \<in> {''_version'', ''dirs'', ''populations'', ''database'', ''outfiles'', ''barcodes''}.
             k \<in> set (dict_keys (attrs data))"
  shows "\<exists>dd. datadict data = Inr dd
           \<and> dict_keys dd = [''_version'', ''name'', ''dirs'', ''paramsdict'', ''samples'',
                              ''populations'', ''database'', ''outfiles'', ''barcodes'']
           \<and> map_of dd ''samples'' = Some (PList (map PStr (dict_keys (samples data))))"
proof -
  have g: "\<exists>v. dict_getitem (attrs data) k = Inr v" if "k \<in> set (dict_keys (attrs data))" for k
  proof -
    from that have "map_of (attrs data) k \<noteq> None"
      by (simp add: map_of_None_iff_keys)
    then show ?thesis by (auto simp: dict_getitem_def)
  qed
  from assms obtain v1 v2 v3 v4 v5 v6 where
    "dict_getitem (attrs data) ''_version'' = Inr v1"
    "dict_getitem (attrs data) ''dirs'' = Inr v2"
    "dict_getitem (attrs data) ''populations'' = Inr v3"
    "dict_getitem (attrs data) ''database'' = Inr v4"
    "dict_getitem (attrs data) ''outfiles'' = Inr v5"
    "dict_getitem (attrs data) ''barcodes'' = Inr v6"
    using g by (metis insertCI)
  then show ?thesis
    by (simp add: datadict_def bind_result_def dict_keys_def)
qed

lemma project0_wellformed:
  "\<forall>k \<in> {''_version'', ''dirs'', ''populations'', ''database'', ''outfiles'', ''barcodes''}.
     k \<in> set (dict_keys (attrs project0))"
  "\<forall>x \<in> set (samples project0). snd x \<noteq> Placeholder"
  "distinct (dict_keys (samples project0))"
  by (simp_all add: project0_def dict_keys_def)

text \<open>
  C9. For an Assembly that has the six attributes \<open>save_json\<close> reads and a Sample under
  every (unique) sample name, the document has the two top-level keys \<open>assembly\<close> and
  \<open>samples\<close>. The \<open>assembly\<close> section has nine keys, \<open>_ipcluster\<close> and \<open>_headers\<close> not
  among them, and its \<open>samples\<close> entry is the list of sample names. The \<open>samples\<close> section
  has the sample names as keys and maps each to the full dump of its Sample.
\<close>

theorem save_json_document_sections:
  assumes "\<forall>k \<in> {''_version'', ''dirs'', ''populations'', ''database'', ''outfiles'', ''barcodes''}.
             k \<in> set (dict_keys (attrs data))"
      and "\<forall>x \<in> set (samples data). snd x \<noteq> Placeholder"
      and "distinct (dict_keys (samples data))"
  shows "\<exists>dd sd.
           save_json_document to_fulldict data
             = Inr (PDict [(''assembly'', PDict dd), (''samples'', PDict sd)])
         \<and> dict_keys dd = [''_version'', ''name'', ''dirs'', ''paramsdict'', ''samples'',
                            ''populations'', ''database'', ''outfiles'', ''barcodes'']
         \<and> ''_ipcluster'' \<notin> set (dict_keys dd) \<and> ''_headers'' \<notin> set (dict_keys dd)
         \<and> map_of dd ''samples'' = Some (PList (map PStr (dict_keys (samples data))))
         \<and> dict_keys sd = dict_keys (samples data)
         \<and> (\<forall>k s. (k, SampleObj s) \<in> set (samples data) \<longrightarrow> map_of sd k = Some (to_fulldict s))"
proof -
  from datadict_present [OF assms(1)] obtain dd where dd:
    "datadict data = Inr dd"
    "dict_keys dd = [''_version'', ''name'', ''dirs'', ''paramsdict'', ''samples'',
                     ''populations'', ''database'', ''outfiles'', ''barcodes'']"
    "map_of dd ''samples'' = Some (PList (map PStr (dict_keys (samples data))))"
    by blast
  have "set (dict_keys (samples data)) \<inter> set (dict_keys ([] :: pydict)) = {}"
    by (simp add: dict_keys_def)
  from sampledict_filled [OF assms(3) this assms(2), of to_fulldict]
  obtain sd where sd:
    "sampledict to_fulldict (samples data) [] = Inr sd"
    "dict_keys sd = dict_keys (samples data)"
    "\<forall>k s. (k, SampleObj s) \<in> set (samples data) \<longrightarrow> map_of sd k = Some (to_fulldict s)"
    by auto
  have doc: "save_json_document to_fulldict data
               = Inr (PDict [(''assembly'', PDict dd), (''samples'', PDict sd)])"
    by (simp add: save_json_document_def bind_result_def dd(1) sd(1))
  have ex: "''_ipcluster'' \<notin> set (dict_keys dd)" "''_headers'' \<notin> set (dict_keys dd)"
    by (simp_all add: dd(2))
  from doc dd(2,3) ex sd(2,3) show ?thesis by blast
qed

theorem save_json_document_sections_witness:
  "\<exists>dd sd. save_json_document to_fulldict0 project0
             = Inr (PDict [(''assembly'', PDict dd), (''samples'', PDict sd)])
     \<and> map_of dd ''samples'' = Some (PList [PStr ''s1'', PStr ''s2''])
     \<and> map_of sd ''s2'' = Some (to_fulldict0 sample0)
     \<and> ''_ipcluster'' \<in> set (dict_keys (attrs project0))
     \<and> ''_ipcluster'' \<notin> set (dict_keys dd)"
proof -
  from save_json_document_sections [OF project0_wellformed, of to_fulldict0]
  obtain dd sd where r:
    "save_json_document to_fulldict0 project0
       = Inr (PDict [(''assembly'', PDict dd), (''samples'', PDict sd)])"
    "''_ipcluster'' \<notin> set (dict_keys dd)"
    "map_of dd ''samples'' = Some (PList (map PStr (dict_keys (samples project0))))"
    "\<forall>k s. (k, SampleObj s) \<in> set (samples project0) \<longrightarrow> map_of sd k = Some (to_fulldict0 s)"
    by blast
  have a: "map_of dd ''samples'' = Some (PList [PStr ''s1'', PStr ''s2''])"
    using r(3) by (simp add: project0_def dict_keys_def)
  have "(''s2'', SampleObj sample0) \<in> set (samples project0)"
    by (simp add: project0_def)
  with r(4) have b: "map_of sd ''s2'' = Some (to_fulldict0 sample0)"
    by blast
  have c: "''_ipcluster'' \<in> set (dict_keys (attrs project0))"
    by (simp add: project0_def dict_keys_def)
  from r(1,2) a b c show ?thesis by blast
qed

lemma write_loop_never_interrupt:
  "write_loop fuel attempts i p d w \<noteq> Some (Inl KeyboardInterrupt)
   \<and> write_loop fuel attempts i p d w \<noteq> Some (Inl SystemExit)"
proof (induction fuel arbitrary: i w)
  case 0
  show ?case by simp
next
  case (Suc fuel)
  show ?case
  proof (cases "attempts i")
    case Completed
    then show ?thesis by simp
  next
    case (Raised e partial)
    show ?thesis
    proof (cases "e = KeyboardInterrupt \<or> e = SystemExit")
      case True
      with Raised Suc.IH show ?thesis by (simp add: Let_def)
    next
      case False
      with Raised show ?thesis by (auto simp: Let_def)
    qed
  qed
qed

lemma write_loop_retries:
  assumes "\<forall>j<n. \<exists>partial. attempts (i + j) = Raised KeyboardInterrupt partial
                           \<or> attempts (i + j) = Raised SystemExit partial"
      and "attempts (i + n) = Completed"
      and "n < fuel"
  shows "\<exists>w'. write_loop fuel attempts i p d w = Some (Inr w')
            \<and> textfiles w' p = Some d
            \<and> out w' = out w @ replicate n (Line ''.'')"
  using assms
proof (induction n arbitrary: i fuel w)
  case 0
  then obtain f where "fuel = Suc f" by (cases fuel) auto
  with 0 show ?case by simp
next
  case (Suc n)
  then obtain f where f: "fuel = Suc f" "n < f" by (cases fuel) auto
  from Suc.prems(1) have "\<exists>partial. attempts (i + 0) = Raised KeyboardInterrupt partial
                           \<or> attempts (i + 0) = Raised SystemExit partial"
    by blast
  then obtain e partial where first: "attempts i = Raised e partial"
      "e = KeyboardInterrupt \<or> e = SystemExit"
    by auto
  let ?w = "case partial of None \<Rightarrow> w
            | Some written \<Rightarrow> w\<lparr>textfiles := (textfiles w)(p \<mapsto> written)\<rparr>"
  have o: "out ?w = out w" by (cases partial) simp_all
  have rest: "\<forall>j<n. \<exists>partial. attempts (Suc i + j) = Raised KeyboardInterrupt partial
                           \<or> attempts (Suc i + j) = Raised SystemExit partial"
  proof (intro allI impI)
    fix j assume "j < n"
    then have "Suc j < Suc n" by simp
    with Suc.prems(1) show "\<exists>partial. attempts (Suc i + j) = Raised KeyboardInterrupt partial
                           \<or> attempts (Suc i + j) = Raised SystemExit partial"
      by (metis add_Suc_shift)
  qed
  have last: "attempts (Suc i + n) = Completed"
    using Suc.prems(2) by simp
  from Suc.IH [OF rest last f(2), of "print [Line ''.''] ?w"]
  obtain w' where w': "write_loop f attempts (Suc i) p d (print [Line ''.''] ?w) = Some (Inr w')"
      "textfiles w' p = Some d"
      "out w' = out (print [Line ''.''] ?w) @ replicate n (Line ''.'')"
    by blast
  have step: "write_loop fuel attempts i p d w
                = write_loop f attempts (Suc i) p d (print [Line ''.''] ?w)"
    using f(1) first by (simp add: Let_def)
  have "out w' = out w @ replicate (Suc n) (Line ''.'')"
    using w'(3) o by (simp add: print_def replicate_append_same)
  with step w'(1,2) show ?case by simp
qed

lemma save_json_document_error:
  "save_json_document f data = Inl e \<Longrightarrow> e = AttributeError \<or> (\<exists>k. e = KeyError k)"
proof -
  have sd: "sampledict f xs acc = Inl e \<Longrightarrow> e = AttributeError" for xs acc
    by (induction f xs acc rule: sampledict.induct) (auto split: sample_slot.splits)
  have dd: "datadict data = Inl e \<Longrightarrow> \<exists>k. e = KeyError k"
    by (auto simp: datadict_def bind_result_def dict_getitem_def split: sum.splits option.splits)
  assume "save_json_document f data = Inl e"
  then show ?thesis
    using sd dd
    by (auto simp: save_json_document_def bind_result_def split: sum.splits)
qed

lemma assemblypath_error:
  "bind_result (dirs_project data) (\<lambda>p. os_path_join p b) = Inl e \<Longrightarrow> e = AttributeError"
  by (auto simp: bind_result_def dirs_project_def os_path_join_def
           split: sum.splits option.splits pyval.splits if_splits)

lemma project0_document:
  "\<exists>document. save_json_document to_fulldict0 project0 = Inr document"
proof -
  from datadict_present [OF project0_wellformed(1)] obtain dd where
    dd: "datadict project0 = Inr dd" by blast
  have "set (dict_keys (samples project0)) \<inter> set (dict_keys ([] :: pydict)) = {}"
    by (simp add: dict_keys_def)
  from sampledict_filled [OF project0_wellformed(3) this project0_wellformed(2), of to_fulldict0]
  obtain sd where sd: "sampledict to_fulldict0 (samples project0) [] = Inr sd" by auto
  show ?thesis
    by (simp add: save_json_document_def bind_result_def dd sd)
qed

lemma project0_path:
  "bind_result (dirs_project project0) (\<lambda>p. os_path_join p (name project0 @ ''.json''))
     = Inr ''/data/proj.json''"
  by (simp add: bind_result_def dirs_project_def os_path_join_def project0_def)

lemma interrupted_twice_script:
  "\<forall>j<2. \<exists>partial. interrupted_twice j = Raised KeyboardInterrupt partial
                   \<or> interrupted_twice j = Raised SystemExit partial"
  "interrupted_twice 2 = Completed"
proof -
  have "j = 0 \<or> j = 1" if "j < 2" for j :: nat
    using that by auto
  then show "\<forall>j<2. \<exists>partial. interrupted_twice j = Raised KeyboardInterrupt partial
                   \<or> interrupted_twice j = Raised SystemExit partial"
    by (auto simp: interrupted_twice_def)
  show "interrupted_twice 2 = Completed"
    by (simp add: interrupted_twice_def)
qed

text \<open>
  C8. \<open>save_json\<close> never ends with KeyboardInterrupt or SystemExit. When the first \<open>n\<close>
  passes of the write loop are interrupted and the next one completes, the loop, given
  fuel for more than \<open>n\<close> passes, ends normally: the file at the assembly path holds the
  whole dump, and \<open>n\<close> dots were printed.
\<close>

theorem save_json_retries_interrupts:
  "save_json to_fulldict dumps fuel attempts data w \<noteq> Some (Inl KeyboardInterrupt)
   \<and> save_json to_fulldict dumps fuel attempts data w \<noteq> Some (Inl SystemExit)
   \<and> (save_json_document to_fulldict data = Inr document
        \<and> bind_result (dirs_project data) (\<lambda>p. os_path_join p (name data @ ''.json''))
            = Inr assemblypath
        \<and> (\<forall>j<n. \<exists>partial. attempts j = Raised KeyboardInterrupt partial
                           \<or> attempts j = Raised SystemExit partial)
        \<and> attempts n = Completed
        \<and> n < fuel
       \<longrightarrow> (\<exists>w'. save_json to_fulldict dumps fuel attempts data w = Some (Inr w')
                 \<and> textfiles w' assemblypath = Some (dumps document)
                 \<and> out w' = out w @ replicate n (Line ''.'')))"
proof (intro conjI impI)
  show "save_json to_fulldict dumps fuel attempts data w \<noteq> Some (Inl KeyboardInterrupt)"
    using write_loop_never_interrupt save_json_document_error [of to_fulldict data]
      assemblypath_error [of data]
    by (fastforce simp: save_json_def Let_def split: sum.splits)
  show "save_json to_fulldict dumps fuel attempts data w \<noteq> Some (Inl SystemExit)"
    using write_loop_never_interrupt save_json_document_error [of to_fulldict data]
      assemblypath_error [of data]
    by (fastforce simp: save_json_def Let_def split: sum.splits)
next
  assume h: "save_json_document to_fulldict data = Inr document
        \<and> bind_result (dirs_project data) (\<lambda>p. os_path_join p (name data @ ''.json''))
            = Inr assemblypath
        \<and> (\<forall>j<n. \<exists>partial. attempts j = Raised KeyboardInterrupt partial
                           \<or> attempts j = Raised SystemExit partial)
        \<and> attempts n = Completed
        \<and> n < fuel"
  then have run: "save_json to_fulldict dumps fuel attempts data w
                    = write_loop fuel attempts 0 assemblypath (dumps document) w"
    by (simp add: save_json_def Let_def)
  from h have "\<forall>j<n. \<exists>partial. attempts (0 + j) = Raised KeyboardInterrupt partial
                           \<or> attempts (0 + j) = Raised SystemExit partial"
    and "attempts (0 + n) = Completed" and "n < fuel"
    by simp_all
  from write_loop_retries [OF this, of assemblypath "dumps document" w] run
  show "\<exists>w'. save_json to_fulldict dumps fuel attempts data w = Some (Inr w')
                 \<and> textfiles w' assemblypath = Some (dumps document)
                 \<and> out w' = out w @ replicate n (Line ''.'')"
    by simp
qed

theorem save_json_retries_interrupts_witness:
  "\<exists>w' document. save_json_document to_fulldict0 project0 = Inr document
     \<and> save_json to_fulldict0 dumps0 3 interrupted_twice project0 (world0 nothing_present)
         = Some (Inr w')
     \<and> textfiles w' ''/data/proj.json'' = Some (dumps0 document)
     \<and> out w' = [Line ''.'', Line ''.'']"
proof -
  from project0_document obtain document where
    doc: "save_json_document to_fulldict0 project0 = Inr document" by blast
  have o: "out (world0 nothing_present) = []"
    by (simp add: world0_def)
  have r: "replicate 2 (Line ''.'') = [Line ''.'', Line ''.'']"
    by (simp add: numeral_2_eq_2)
  from save_json_retries_interrupts
         [of to_fulldict0 dumps0 3 interrupted_twice project0 "world0 nothing_present"
             document "''/data/proj.json''" 2]
       doc project0_path interrupted_twice_script
  obtain w' where
    "save_json to_fulldict0 dumps0 3 interrupted_twice project0 (world0 nothing_present)
       = Some (Inr w')"
    "textfiles w' ''/data/proj.json'' = Some (dumps0 document)"
    "out w' = out (world0 nothing_present) @ replicate 2 (Line ''.'')"
    by auto
  with doc o r show ?thesis by auto
qed

subsection \<open>The text codec: loading\<close>

lemma load_json_unbound:
  assumes "textfiles w path = None" and "textfiles w (path @ ''.json'') = None"
  shows "load_json c sch ssch path quiet w = Inl UnboundLocalError"
  using assms by (simp add: load_json_def Let_def bind_result_def null_assembly_def)

lemma splitext_root0_examples:
  "splitext_root0 ''proj'' = ''proj''"
  "splitext_root0 ''proj.v2'' = ''proj''"
  "splitext_root0 ''.hidden'' = ''.hidden''"
  "splitext_root0 ''a.b/proj'' = ''a.b/proj''"
  "splitext_root0 ''a.b/proj.json'' = ''a.b/proj''"
  "splitext_root0 ''..a'' = ''..a''"
  "splitext_root0 ''a.'' = ''a''"
  by (simp_all add: splitext_root0_def)

lemma collaborators0_simps:
  "json_loads collaborators0 = json_loads0"
  "shortpath collaborators0 p = p"
  "splitext_root collaborators0 = splitext_root0"
  "set_params collaborators0 param val a
     = Inr (a\<lparr>paramsdict := AList.update param val (paramsdict a)\<rparr>)"
  "build_stat collaborators0 statskey a = None"
  by (simp_all add: collaborators0_def)

lemma text_world_files:
  "textfiles text_world ''missing_project'' = None"
  "textfiles text_world ''missing_project.json'' = None"
  "textfiles text_world ''odd'' = Some ''<assembly is a string>''"
  "textfiles text_world ''odd.json'' = None"
  "textfiles text_world ''/data/proj'' = None"
  "textfiles text_world ''/data/proj.json'' = Some ''<project without samples>''"
  by (simp_all add: text_world_def)

lemma first_sample_keys_empty:
  "getitem fj ''samples'' = Inr (PDict []) \<Longrightarrow> first_sample_keys fj = Inl IndexError"
  by (simp add: first_sample_keys_def bind_result_def pykeys_def dict_keys_def)

lemma bind_result_simps:
  "bind_result (Inl e) f = Inl e"
  "bind_result (Inr v) f = f v"
  by (simp_all add: bind_result_def)

lemma reconcile_empty_samples:
  assumes "getitem fj ''samples'' = Inr (PDict [])"
  shows "reconcile c ssch quiet oldname oldpath asm fj null w \<noteq> Inr r"
  unfolding reconcile_def Let_def
  by (auto simp: bind_result_def first_sample_keys_empty [OF assms] split: sum.splits prod.splits)

lemma load_json_empty_samples:
  assumes "\<And>fj. read_loop (json_loads c) w [path, path @ ''.json''] None = Inr (Some fj)
             \<Longrightarrow> getitem fj ''samples'' = Inr (PDict [])"
  shows "load_json c sch ssch path quiet w \<noteq> Inr r"
proof
  assume l: "load_json c sch ssch path quiet w = Inr r"
  then obtain fullj where f: "read_loop (json_loads c) w [path, path @ ''.json''] None = Inr fullj"
    by (auto simp: load_json_def Let_def bind_result_def split: sum.splits simp del: read_loop.simps)
  with l obtain oldname oldpath asm fj null where
    n: "null_assembly c sch fullj = Inr (oldname, oldpath, asm, fj, null)"
    and rc: "reconcile c ssch quiet oldname oldpath asm fj null w = Inr r"
    by (auto simp: load_json_def Let_def bind_result_def split: sum.splits if_splits
             simp del: read_loop.simps)
  from n have "fullj = Some fj"
    by (auto simp: null_assembly_def bind_result_def split: option.splits sum.splits prod.splits)
  with f assms have "getitem fj ''samples'' = Inr (PDict [])" by simp
  from reconcile_empty_samples [OF this] rc show False by blast
qed

lemma doc_without_samples_saved:
  "save_json_document to_fulldict0 project_without_samples = Inr doc_without_samples"
  by (simp add: save_json_document_def datadict_def bind_result_def dict_getitem_def
        project_without_samples_def project0_def doc_without_samples_def dict_keys_def)

lemma read_doc_without_samples:
  "read_loop json_loads0 text_world [''/data/proj'', ''/data/proj.json''] None
     = Inr (Some doc_without_samples)"
  by (simp add: text_world_files json_loads0_def)

text \<open>
  The model loads what \<open>save_json\<close> writes for a project with samples: the two samples
  and the parameters come back.
\<close>

lemma doc_with_samples_saved:
  "save_json_document to_fulldict0 project0 = Inr doc_with_samples"
  by (simp add: save_json_document_def datadict_def bind_result_def dict_getitem_def
        project0_def doc_with_samples_def dict_keys_def)

lemma load_doc_with_samples:
  "\<exists>a w. load_json collaborators0 schema0 sample_schema0
            ''/data/proj'' True text_world_samples = Inr (a, w)
       \<and> dict_keys (samples a) = [''s1'', ''s2'']
       \<and> map_of (samples a) ''s1'' = Some (SampleObj sample0)
       \<and> paramsdict a = paramsdict project0"
proof -
  let ?asm = "PDict
           [(''_version'', PStr ''0.2.0''),
            (''dirs'', PDict [(''project'', PStr ''/data'')]),
            (''paramsdict'', PDict [(''assembly_name'', PStr ''proj''),
                                    (''project_dir'', PStr ''/data''),
                                    (''max_low_qual_bases'', PNum 5)]),
            (''samples'', PList [PStr ''s1'', PStr ''s2'']),
            (''populations'', PDict []),
            (''database'', PStr []),
            (''outfiles'', PDict []),
            (''barcodes'', PDict [])]"
  note cs = collaborators0_simps splitext_root0_examples
  have r: "read_loop json_loads0 text_world_samples [''/data/proj'', ''/data/proj.json''] None
     = Inr (Some doc_with_samples)"
    by (simp add: text_world_samples_def json_loads0_def)
  have n: "null_assembly collaborators0 schema0 (Some doc_with_samples)
             = Inr (''proj'', ''/data/proj.json'', ?asm, doc_with_samples,
                    Assembly schema0 ''proj'')"
    by (simp add: null_assembly_def bind_result_simps getitem_def dict_getitem_def pop_def
          doc_with_samples_def os_path_join_def cs AList.delete_eq)
  have f: "first_sample_keys doc_with_samples
             = Inr ([''stats'', ''statsfiles'', ''name'', ''files''], [''state''], [''s1''],
                    [''reads_raw''])"
    by (simp add: first_sample_keys_def bind_result_simps getitem_def dict_getitem_def
          doc_with_samples_def pykeys_def dict_keys_def to_fulldict0_def sample0_def)
  have s: "getitem doc_with_samples ''samples''
             = Inr (PDict [(''s1'', to_fulldict0 sample0), (''s2'', to_fulldict0 sample0)])"
    by (simp add: getitem_def dict_getitem_def doc_with_samples_def)
  show ?thesis
    apply (simp add: load_json_def Let_def cs r n bind_result_simps del: read_loop.simps)
    apply (simp add: reconcile_def Let_def bind_result_simps pop_def placeholders_def
          AList.delete_eq cs pykeys_def dict_keys_def instance_keys_def
          Assembly_def schema0_def getitem_def dict_getitem_def setattr_assembly_def f
          sample_schema0_def getattr_def ObjDict_def project0_def)
    apply (simp add: fill_sample_def Let_def Sample_def sample0_def
          doc_with_samples_def to_fulldict0_def bind_result_simps getitem_def dict_getitem_def getattr_def ObjDict_def dict_keys_def)
    done
qed

text \<open>
  C5, on the code. With no file at either candidate, \<open>load_json\<close> ends with
  UnboundLocalError, not with IPyradWarningExit: the handler of lines 215 to 219 catches
  AttributeError only. Where the handler does run (the file at the literal name opens
  and its \<open>assembly\<close> entry is a string), the message names the last candidate,
  \<open>odd.json\<close>, which does not exist, not \<open>odd\<close>, which was opened.
\<close>

theorem load_json_missing_file_unbound:
  "textfiles text_world ''missing_project'' = None
   \<and> textfiles text_world ''missing_project.json'' = None
   \<and> load_json collaborators0 schema0 sample_schema0 ''missing_project'' False text_world
       = Inl UnboundLocalError
   \<and> load_json collaborators0 schema0 sample_schema0 ''odd'' False text_world
       = Inl (IPyradWarningExit (could_not_find ''odd.json''))"
proof -
  have b: "load_json collaborators0 schema0 sample_schema0 ''missing_project'' False text_world
             = Inl UnboundLocalError"
    by (rule load_json_unbound) (simp_all add: text_world_files)
  have r: "read_loop json_loads0 text_world [''odd'', ''odd.json''] None
             = Inr (Some doc_assembly_is_string)"
    by (simp add: text_world_files json_loads0_def)
  have n: "null_assembly collaborators0 schema0 (Some doc_assembly_is_string) = Inl AttributeError"
    by (simp add: null_assembly_def bind_result_def getitem_def dict_getitem_def pop_def
          doc_assembly_is_string_def)
  have c: "load_json collaborators0 schema0 sample_schema0 ''odd'' False text_world
             = Inl (IPyradWarningExit (could_not_find ''odd.json''))"
    by (simp add: load_json_def Let_def collaborators0_simps r n bind_result_def
          del: read_loop.simps)
  from b c text_world_files show ?thesis by simp
qed

text \<open>
  C6, on the code. For the document \<open>save_json\<close> writes for a project without samples,
  \<open>load_json\<close> ends with IndexError (line 263), not with an Assembly.
\<close>

theorem load_json_without_samples_index_error:
  "save_json_document to_fulldict0 project_without_samples = Inr doc_without_samples
   \<and> textfiles text_world ''/data/proj.json'' = Some ''<project without samples>''
   \<and> json_loads collaborators0 ''<project without samples>'' = Some doc_without_samples
   \<and> load_json collaborators0 schema0 sample_schema0 ''/data/proj'' True text_world
       = Inl IndexError"
proof -
  let ?asm = "PDict
           [(''_version'', PStr ''0.2.0''),
            (''dirs'', PDict [(''project'', PStr ''/data'')]),
            (''paramsdict'', PDict [(''assembly_name'', PStr ''proj''),
                                    (''project_dir'', PStr ''/data''),
                                    (''max_low_qual_bases'', PNum 5)]),
            (''samples'', PList []),
            (''populations'', PDict []),
            (''database'', PStr []),
            (''outfiles'', PDict []),
            (''barcodes'', PDict [])]"
  have n: "null_assembly collaborators0 schema0 (Some doc_without_samples)
             = Inr (''proj'', ''/data/proj.json'', ?asm, doc_without_samples,
                    Assembly schema0 ''proj'')"
    by (simp add: null_assembly_def bind_result_simps getitem_def dict_getitem_def pop_def
          doc_without_samples_def os_path_join_def collaborators0_simps
          splitext_root0_examples AList.delete_eq)
  have s: "getitem doc_without_samples ''samples'' = Inr (PDict [])"
    by (simp add: getitem_def dict_getitem_def doc_without_samples_def)
  have rc: "reconcile collaborators0 sample_schema0 True ''proj'' ''/data/proj.json'' ?asm
              doc_without_samples (Assembly schema0 ''proj'') text_world = Inl IndexError"
    by (simp add: reconcile_def Let_def bind_result_simps pop_def placeholders_def
          AList.delete_eq collaborators0_simps pykeys_def dict_keys_def instance_keys_def
          Assembly_def schema0_def getitem_def dict_getitem_def setattr_assembly_def
          first_sample_keys_empty [OF s])
  have l: "load_json collaborators0 schema0 sample_schema0 ''/data/proj'' True text_world
       = Inl IndexError"
    by (simp add: load_json_def Let_def collaborators0_simps read_doc_without_samples n rc
          bind_result_simps del: read_loop.simps)
  have j: "json_loads collaborators0 ''<project without samples>'' = Some doc_without_samples"
    by (simp add: collaborators0_simps json_loads0_def)
  from doc_without_samples_saved text_world_files(6) j l show ?thesis by simp
qed

end
